theory Spec2Isabelle
  imports Complex_Main
begin

section \<open>Strings\<close>

text \<open>
  A JavaScript string is modelled as a \<^typ>\<open>string\<close>, one \<^typ>\<open>char\<close> per UTF-16 code unit.
  A \<^typ>\<open>char\<close> has eight bits, so the model covers the strings whose code units are below
  256; on these, \<open>toLowerCase\<close> changes the letters A to Z and the capital letters of the
  Latin-1 block, and \<open>trim\<close> removes the seven white-space code units listed below.
\<close>

definition isSpace :: "char \<Rightarrow> bool" where
  "isSpace c = (c \<in> set [CHR 0x09, CHR 0x0A, CHR 0x0B, CHR 0x0C, CHR 0x0D, CHR 0x20, CHR 0xA0])"

definition trim :: "string \<Rightarrow> string" where
  "trim s = rev (dropWhile isSpace (rev (dropWhile isSpace s)))"

definition lowerChar :: "char \<Rightarrow> char" where
  "lowerChar c =
     (let n = (of_char c :: nat)
      in if (65 \<le> n \<and> n \<le> 90) \<or> (192 \<le> n \<and> n \<le> 214) \<or> (216 \<le> n \<and> n \<le> 222)
         then char_of (n + 32) else c)"

definition toLowerCase :: "string \<Rightarrow> string" where
  "toLowerCase s = map lowerChar s"

fun startsWith :: "string \<Rightarrow> string \<Rightarrow> bool" where
  "startsWith s [] = True"
| "startsWith [] (k # ks) = False"
| "startsWith (c # cs) (k # ks) = (c = k \<and> startsWith cs ks)"

text \<open>\<open>includes_str s k\<close> is \<open>s.includes(k)\<close>: \<open>k\<close> occurs in \<open>s\<close> as a contiguous run.\<close>

fun includes_str :: "string \<Rightarrow> string \<Rightarrow> bool" where
  "includes_str [] k = (k = [])"
| "includes_str (c # cs) k = (startsWith (c # cs) k \<or> includes_str cs k)"


section \<open>Reminders page\<close>

subsection \<open>Data model\<close>

datatype repeat_mode = RepeatNone | Daily | Weekly

text \<open>
  The type \<open>Reminder\<close>. The three optional fields are \<open>None\<close> when the property is
  \<open>undefined\<close>. \<open>nextSnoozeAt\<close> is an epoch time in milliseconds.
\<close>

record reminder =
  rem_id :: string
  title :: string
  time :: string
  enabled :: bool
  repeat :: repeat_mode
  daysOfWeek :: "int list option"
  lastTriggeredKey :: "string option"
  nextSnoozeAt :: "int option"

text \<open>
  What one run of the interval callback reads from the clock: the local time as \<open>HH:MM\<close>,
  the first ten characters of \<open>toISOString()\<close>, the weekday and \<open>Date.now()\<close>. The callback
  is synchronous, so one instant stands for every \<open>Date.now()\<close> of a run.
\<close>

record clock =
  currentTime :: string
  dateKey :: string
  dow :: int
  nowMs :: int

definition currentKey :: "clock \<Rightarrow> string" where
  "currentKey ck = dateKey ck @ ''-'' @ currentTime ck"

text \<open>
  The component state the scheduler works on. \<open>isPlaying\<close> is the flag of the alarm hook;
  the audio itself is not modelled, and \<open>startAlarm\<close> is taken to succeed.
\<close>

record page =
  reminders :: "reminder list"
  activeReminderId :: "string option"
  isPlaying :: bool

subsection \<open>Scheduler\<close>

text \<open>\<open>r.nextSnoozeAt && Date.now() >= r.nextSnoozeAt\<close>: a missing or zero value is falsy.\<close>

definition snoozeDue :: "clock \<Rightarrow> reminder \<Rightarrow> bool" where
  "snoozeDue ck r = (case nextSnoozeAt r of None \<Rightarrow> False | Some t \<Rightarrow> t \<noteq> 0 \<and> t \<le> nowMs ck)"

datatype path = SnoozePath | TimePath

text \<open>
  The body of the \<open>for\<close> loop for one reminder: \<open>None\<close> is \<open>continue\<close>, \<open>Some p\<close> is the call
  of \<open>triggerReminder\<close> followed by \<open>break\<close>, reached by the snooze test or by the time test.
\<close>

definition check_reminder :: "clock \<Rightarrow> reminder \<Rightarrow> path option" where
  "check_reminder ck r =
     (if \<not> enabled r then None
      else if snoozeDue ck r then Some SnoozePath
      else if time r \<noteq> currentTime ck then None
      else if lastTriggeredKey r = Some (currentKey ck) then None
      else if repeat r = Weekly \<and>
              (case daysOfWeek r of None \<Rightarrow> True | Some ds \<Rightarrow> dow ck \<notin> set ds) then None
      else Some TimePath)"

fun scheduler_loop :: "clock \<Rightarrow> reminder list \<Rightarrow> (reminder \<times> path) option" where
  "scheduler_loop ck [] = None"
| "scheduler_loop ck (r # rs) =
     (case check_reminder ck r of
        Some p \<Rightarrow> Some (r, p)
      | None \<Rightarrow> scheduler_loop ck rs)"

definition triggerReminder :: "reminder \<Rightarrow> string \<Rightarrow> page \<Rightarrow> page" where
  "triggerReminder rem key st =
     st\<lparr>activeReminderId := Some (rem_id rem),
        isPlaying := True,
        reminders :=
          map (\<lambda>r. if rem_id r \<noteq> rem_id rem then r
                    else r\<lparr>lastTriggeredKey := Some key,
                           enabled := (if repeat r = RepeatNone then False else enabled r)\<rparr>)
              (reminders st)\<rparr>"

text \<open>One run of the interval callback.\<close>

definition tick :: "clock \<Rightarrow> page \<Rightarrow> page" where
  "tick ck st =
     (case scheduler_loop ck (reminders st) of
        None \<Rightarrow> st
      | Some (r, p) \<Rightarrow> triggerReminder r (currentKey ck) st)"

text \<open>
  The calls of \<open>triggerReminder\<close> made by consecutive runs of the callback, one clock
  reading per run, in order.
\<close>

fun fired_in :: "clock list \<Rightarrow> page \<Rightarrow> (reminder \<times> path) list" where
  "fired_in [] st = []"
| "fired_in (ck # cks) st =
     (case scheduler_loop ck (reminders st) of None \<Rightarrow> [] | Some x \<Rightarrow> [x])
       @ fired_in cks (tick ck st)"

subsection \<open>User actions\<close>

definition stopActiveAlarm :: "page \<Rightarrow> page" where
  "stopActiveAlarm st = st\<lparr>isPlaying := False, activeReminderId := None\<rparr>"

text \<open>\<open>snoozeActive minutes\<close> at the instant \<open>now\<close>; an empty id is falsy, like a missing one.\<close>

definition snoozeActive :: "int \<Rightarrow> int \<Rightarrow> page \<Rightarrow> page" where
  "snoozeActive minutes now st =
     (case activeReminderId st of
        None \<Rightarrow> st
      | Some a \<Rightarrow>
          if a = [] then st
          else stopActiveAlarm
                 (st\<lparr>reminders :=
                       map (\<lambda>r. if rem_id r = a
                                 then r\<lparr>nextSnoozeAt := Some (now + minutes * 60 * 1000)\<rparr>
                                 else r)
                           (reminders st)\<rparr>))"

definition toggleReminder :: "string \<Rightarrow> page \<Rightarrow> page" where
  "toggleReminder i st =
     st\<lparr>reminders :=
          map (\<lambda>r. if rem_id r = i then r\<lparr>enabled := \<not> enabled r\<rparr> else r) (reminders st)\<rparr>"

definition removeReminder :: "string \<Rightarrow> page \<Rightarrow> page" where
  "removeReminder i st = st\<lparr>reminders := filter (\<lambda>r. rem_id r \<noteq> i) (reminders st)\<rparr>"

text \<open>
  The fields of the dialog that \<open>addReminder\<close> reads. \<open>uuid\<close> stands for the value of
  \<open>crypto.randomUUID()\<close>. The weekday buttons give the numbers 0 to 6, on which the default
  \<open>sort()\<close> is the numeric order.
\<close>

record form =
  formTitle :: string
  formTime :: string
  formEnabled :: bool
  formRepeat :: repeat_mode
  formWeekDays :: "int list"

definition newReminder :: "string \<Rightarrow> form \<Rightarrow> reminder" where
  "newReminder uuid f =
     \<lparr>rem_id = uuid, title = trim (formTitle f), time = formTime f, enabled = formEnabled f,
      repeat = formRepeat f,
      daysOfWeek = (if formRepeat f = Weekly then Some (sort (formWeekDays f)) else None),
      lastTriggeredKey = None, nextSnoozeAt = None\<rparr>"

definition addReminder :: "string \<Rightarrow> form \<Rightarrow> page \<Rightarrow> page" where
  "addReminder uuid f st =
     (if trim (formTitle f) = [] \<or> formTime f = [] then st
      else st\<lparr>reminders := reminders st @ [newReminder uuid f]\<rparr>)"

subsection \<open>Persistence\<close>

text \<open>
  The value \<open>JSON.parse\<close> returns. A number is the real that its text denotes. An object
  is the list of its members in the order of the text; a later member of the same name
  replaces an earlier one.
\<close>

datatype json =
  JNull | JBool bool | JNum real | JStr string | JArr "json list" | JObj "(string \<times> json) list"

text \<open>
  \<open>candidate.p\<close>: \<open>None\<close> is \<open>undefined\<close>. Arrays, which also have the type
  \<open>object\<close>, have none of the properties read here.
\<close>

fun get_prop :: "json \<Rightarrow> string \<Rightarrow> json option" where
  "get_prop (JObj kvs) p = map_of (rev kvs) p"
| "get_prop j p = None"

definition repeatOptions :: "string list" where
  "repeatOptions = [''none'', ''daily'', ''weekly'']"

definition isRepeatOption :: "string \<Rightarrow> bool" where
  "isRepeatOption v = (v \<in> set repeatOptions)"

fun isString :: "json option \<Rightarrow> bool" where
  "isString (Some (JStr s)) = True"
| "isString j = False"

fun isBoolean :: "json option \<Rightarrow> bool" where
  "isBoolean (Some (JBool b)) = True"
| "isBoolean j = False"

text \<open>The callback of \<open>value.every\<close> in \<open>isReminderArray\<close>.\<close>

fun isReminderItem :: "json \<Rightarrow> bool" where
  "isReminderItem JNull = False"
| "isReminderItem (JBool b) = False"
| "isReminderItem (JNum n) = False"
| "isReminderItem (JStr s) = False"
| "isReminderItem item =
     (isString (get_prop item ''id'') \<and>
      isString (get_prop item ''title'') \<and>
      isString (get_prop item ''time'') \<and>
      isBoolean (get_prop item ''enabled'') \<and>
      (case get_prop item ''repeat'' of Some (JStr v) \<Rightarrow> isRepeatOption v | _ \<Rightarrow> False))"

fun isReminderArray :: "json \<Rightarrow> bool" where
  "isReminderArray (JArr items) = list_all isReminderItem items"
| "isReminderArray j = False"

text \<open>
  What the load effect finds: no item under the key (or an empty one), a text that
  \<open>JSON.parse\<close> rejects, or the parsed value.
\<close>

datatype stored = NoItem | Unparsable | Parsed json

text \<open>
  The load effect on the collection as the state holds it. \<open>setReminders(parsed)\<close> stores
  the parsed array itself, the cast \<open>as Reminder[]\<close> changing nothing at run time, so the
  collection is a list of stored objects here. \<open>items_of\<close> gives the elements of an array.
\<close>

fun items_of :: "json \<Rightarrow> json list" where
  "items_of (JArr items) = items"
| "items_of j = []"

definition load_effect :: "stored \<Rightarrow> json list \<Rightarrow> json list" where
  "load_effect raw prev =
     (case raw of
        NoItem \<Rightarrow> prev
      | Unparsable \<Rightarrow> prev
      | Parsed parsed \<Rightarrow> if isReminderArray parsed then items_of parsed else prev)"

text \<open>The collection after mounting: the load effect runs once on the initial state \<open>[]\<close>.\<close>

definition mounted :: "stored \<Rightarrow> json list" where
  "mounted raw = load_effect raw []"

text \<open>
  The record that the scheduler sees in a loaded object. The five validated properties
  are read at the types \<open>isReminderArray\<close> has checked. An optional property is \<open>None\<close>
  when the object has no such member, and holds the member when this has the declared
  type: an array of whole numbers, a string, a whole number. An object with an optional
  member of any other kind is kept by the code as it is stored; the record cannot express
  it, so it has no record (\<open>None\<close>), and the model of the scheduler does not cover it.
\<close>

fun stringOf :: "json option \<Rightarrow> string" where
  "stringOf (Some (JStr s)) = s"
| "stringOf j = []"

fun boolOf :: "json option \<Rightarrow> bool" where
  "boolOf (Some (JBool b)) = b"
| "boolOf j = False"

fun repeatOf :: "json option \<Rightarrow> repeat_mode" where
  "repeatOf (Some (JStr v)) =
     (if v = ''weekly'' then Weekly else if v = ''daily'' then Daily else RepeatNone)"
| "repeatOf j = RepeatNone"

fun wholeOf :: "json \<Rightarrow> int option" where
  "wholeOf (JNum x) = (if x = of_int \<lfloor>x\<rfloor> then Some \<lfloor>x\<rfloor> else None)"
| "wholeOf j = None"

fun wholesOf :: "json list \<Rightarrow> int list option" where
  "wholesOf [] = Some []"
| "wholesOf (j # js) =
     (case wholeOf j of
        None \<Rightarrow> None
      | Some n \<Rightarrow> (case wholesOf js of None \<Rightarrow> None | Some ns \<Rightarrow> Some (n # ns)))"

text \<open>
  The three optional members: the outer \<open>None\<close> is a member the record cannot express,
  \<open>Some None\<close> a missing one.
\<close>

fun optNumbers :: "json option \<Rightarrow> int list option option" where
  "optNumbers None = Some None"
| "optNumbers (Some (JArr js)) = map_option Some (wholesOf js)"
| "optNumbers (Some j) = None"

fun optString :: "json option \<Rightarrow> string option option" where
  "optString None = Some None"
| "optString (Some (JStr s)) = Some (Some s)"
| "optString (Some j) = None"

fun optNumber :: "json option \<Rightarrow> int option option" where
  "optNumber None = Some None"
| "optNumber (Some j) = map_option Some (wholeOf j)"

definition reminder_of_json :: "json \<Rightarrow> reminder option" where
  "reminder_of_json j =
     (if \<not> isReminderItem j then None
      else case (optNumbers (get_prop j ''daysOfWeek''),
                 optString (get_prop j ''lastTriggeredKey''),
                 optNumber (get_prop j ''nextSnoozeAt'')) of
             (Some days, Some key, Some snooze) \<Rightarrow>
               Some \<lparr>rem_id = stringOf (get_prop j ''id''),
                     title = stringOf (get_prop j ''title''),
                     time = stringOf (get_prop j ''time''),
                     enabled = boolOf (get_prop j ''enabled''),
                     repeat = repeatOf (get_prop j ''repeat''),
                     daysOfWeek = days,
                     lastTriggeredKey = key,
                     nextSnoozeAt = snooze\<rparr>
           | _ \<Rightarrow> None)"

text \<open>The records of a collection, when every object of it has one.\<close>

definition typed :: "json list \<Rightarrow> reminder list option" where
  "typed items = those (map reminder_of_json items)"

definition initial_page :: page where
  "initial_page = \<lparr>reminders = [], activeReminderId = None, isPlaying = False\<rparr>"

text \<open>The page after mounting, when the loaded collection has records.\<close>

definition mount :: "stored \<Rightarrow> page option" where
  "mount raw = map_option (\<lambda>rs. initial_page\<lparr>reminders := rs\<rparr>) (typed (mounted raw))"

text \<open>
  The value that \<open>JSON.stringify(reminders)\<close> writes and \<open>JSON.parse\<close> reads back:
  \<open>stringify\<close> leaves out a property whose value is \<open>undefined\<close>.
\<close>

definition repeat_string :: "repeat_mode \<Rightarrow> string" where
  "repeat_string m = (case m of RepeatNone \<Rightarrow> ''none'' | Daily \<Rightarrow> ''daily'' | Weekly \<Rightarrow> ''weekly'')"

definition json_of_reminder :: "reminder \<Rightarrow> json" where
  "json_of_reminder r =
     JObj ([(''id'', JStr (rem_id r)), (''title'', JStr (title r)), (''time'', JStr (time r)),
            (''enabled'', JBool (enabled r)), (''repeat'', JStr (repeat_string (repeat r)))]
           @ (case daysOfWeek r of
                None \<Rightarrow> []
              | Some ds \<Rightarrow> [(''daysOfWeek'', JArr (map (\<lambda>d. JNum (of_int d)) ds))])
           @ (case lastTriggeredKey r of None \<Rightarrow> [] | Some k \<Rightarrow> [(''lastTriggeredKey'', JStr k)])
           @ (case nextSnoozeAt r of None \<Rightarrow> [] | Some t \<Rightarrow> [(''nextSnoozeAt'', JNum (of_int t))]))"

definition saved :: "page \<Rightarrow> stored" where
  "saved st = Parsed (JArr (map json_of_reminder (reminders st)))"

text \<open>The invariant of the data model: \<open>daysOfWeek\<close> is defined exactly for weekly reminders.\<close>

definition days_invariant :: "reminder \<Rightarrow> bool" where
  "days_invariant r = ((daysOfWeek r \<noteq> None) = (repeat r = Weekly))"


section \<open>Air quality index\<close>

text \<open>
  Concentrations and table entries are JavaScript numbers, that is IEEE 754 doubles. The
  model gives a number by the real that its decimal denotes, and \<open>fl\<close> gives the double
  this decimal stands for: the nearest one, a tie going to the even significand. An
  arithmetic operation of the source is the exact operation on the doubles of its
  operands, rounded by \<open>fl\<close>. The comparisons are made on the decimals; \<open>fl\<close> is monotone, so
  they are those of the doubles unless a reading and a bound that differ as decimals have
  the same double. Magnitudes beyond the largest double are outside the model.
\<close>

text \<open>The integer nearest to \<open>y\<close>, a tie going to the even one.\<close>

definition rne :: "real \<Rightarrow> int" where
  "rne y =
     (let f = \<lfloor>y\<rfloor>; d = y - of_int f
      in if d < 1 / 2 then f else if 1 / 2 < d then f + 1 else if even f then f else f + 1)"

text \<open>
  A double has a significand of 53 bits. For a positive \<open>x\<close> below \<open>2 ^ 52\<close>, \<open>scaleUp\<close> finds
  the least \<open>k\<close> with \<open>x * 2 ^ k\<close> at or above \<open>2 ^ 52\<close>, up to 1074, the exponent of the
  smallest spacing of doubles; for \<open>x\<close> from \<open>2 ^ 53\<close> on, \<open>scaleDown\<close> finds the least \<open>k\<close>
  with \<open>x / 2 ^ k\<close> below \<open>2 ^ 53\<close>. The scaled number is rounded to an integer and scaled
  back.
\<close>

fun scaleUp :: "nat \<Rightarrow> real \<Rightarrow> nat \<Rightarrow> nat" where
  "scaleUp fuel x k =
     (if fuel = 0 \<or> 2 ^ 52 \<le> x * 2 ^ k then k else scaleUp (fuel - 1) x (k + 1))"

fun scaleDown :: "nat \<Rightarrow> real \<Rightarrow> nat \<Rightarrow> nat" where
  "scaleDown fuel x k =
     (if fuel = 0 \<or> x / 2 ^ k < 2 ^ 53 then k else scaleDown (fuel - 1) x (k + 1))"

declare scaleUp.simps [simp del] scaleDown.simps [simp del]

definition fl_pos :: "real \<Rightarrow> real" where
  "fl_pos x =
     (if x < 2 ^ 52 then (let k = scaleUp 1074 x 0 in of_int (rne (x * 2 ^ k)) / 2 ^ k)
      else (let k = scaleDown 971 x 0 in of_int (rne (x / 2 ^ k)) * 2 ^ k))"

definition fl :: "real \<Rightarrow> real" where
  "fl x = (if x < 0 then - fl_pos (- x) else if x = 0 then 0 else fl_pos x)"

text \<open>The four operations on doubles.\<close>

definition dadd :: "real \<Rightarrow> real \<Rightarrow> real" where
  "dadd a b = fl (a + b)"

definition dsub :: "real \<Rightarrow> real \<Rightarrow> real" where
  "dsub a b = fl (a - b)"

definition dmul :: "real \<Rightarrow> real \<Rightarrow> real" where
  "dmul a b = fl (a * b)"

definition ddiv :: "real \<Rightarrow> real \<Rightarrow> real" where
  "ddiv a b = fl (a / b)"

text \<open>\<open>Math.round\<close> gives the integer nearest to the value of a double, a tie going up.\<close>

definition js_round :: "real \<Rightarrow> int" where
  "js_round x = \<lfloor>x + 1 / 2\<rfloor>"

record breakpoint =
  Clow :: real
  Chigh :: real
  Ilow :: real
  Ihigh :: real

fun computeSubIndex :: "real \<Rightarrow> breakpoint list \<Rightarrow> int option" where
  "computeSubIndex Cp [] = None"
| "computeSubIndex Cp (bp # bps) =
     (if Clow bp \<le> Cp \<and> Cp \<le> Chigh bp
      then Some (js_round
                  (dadd (dmul (ddiv (dsub (fl (Ihigh bp)) (fl (Ilow bp)))
                                    (dsub (fl (Chigh bp)) (fl (Clow bp))))
                              (dsub (fl Cp) (fl (Clow bp))))
                        (fl (Ilow bp))))
      else computeSubIndex Cp bps)"

text \<open>
  The two properties of \<open>components\<close> that the index reads; \<open>None\<close> is a property that is
  missing or not a number.
\<close>

record components =
  pm2_5 :: "real option"
  pm10 :: "real option"

definition us_pm25Breaks :: "breakpoint list" where
  "us_pm25Breaks =
    [\<lparr>Clow = 0.0, Chigh = 12.0, Ilow = 0, Ihigh = 50\<rparr>,
     \<lparr>Clow = 12.1, Chigh = 35.4, Ilow = 51, Ihigh = 100\<rparr>,
     \<lparr>Clow = 35.5, Chigh = 55.4, Ilow = 101, Ihigh = 150\<rparr>,
     \<lparr>Clow = 55.5, Chigh = 150.4, Ilow = 151, Ihigh = 200\<rparr>,
     \<lparr>Clow = 150.5, Chigh = 250.4, Ilow = 201, Ihigh = 300\<rparr>,
     \<lparr>Clow = 250.5, Chigh = 350.4, Ilow = 301, Ihigh = 400\<rparr>,
     \<lparr>Clow = 350.5, Chigh = 500.4, Ilow = 401, Ihigh = 500\<rparr>]"

definition us_pm10Breaks :: "breakpoint list" where
  "us_pm10Breaks =
    [\<lparr>Clow = 0, Chigh = 54, Ilow = 0, Ihigh = 50\<rparr>,
     \<lparr>Clow = 55, Chigh = 154, Ilow = 51, Ihigh = 100\<rparr>,
     \<lparr>Clow = 155, Chigh = 254, Ilow = 101, Ihigh = 150\<rparr>,
     \<lparr>Clow = 255, Chigh = 354, Ilow = 151, Ihigh = 200\<rparr>,
     \<lparr>Clow = 355, Chigh = 424, Ilow = 201, Ihigh = 300\<rparr>,
     \<lparr>Clow = 425, Chigh = 504, Ilow = 301, Ihigh = 400\<rparr>,
     \<lparr>Clow = 505, Chigh = 604, Ilow = 401, Ihigh = 500\<rparr>]"

definition india_pm25Breaks :: "breakpoint list" where
  "india_pm25Breaks =
    [\<lparr>Clow = 0.0, Chigh = 30.0, Ilow = 0, Ihigh = 50\<rparr>,
     \<lparr>Clow = 31.0, Chigh = 60.0, Ilow = 51, Ihigh = 100\<rparr>,
     \<lparr>Clow = 61.0, Chigh = 90.0, Ilow = 101, Ihigh = 200\<rparr>,
     \<lparr>Clow = 91.0, Chigh = 120.0, Ilow = 201, Ihigh = 300\<rparr>,
     \<lparr>Clow = 121.0, Chigh = 250.0, Ilow = 301, Ihigh = 400\<rparr>,
     \<lparr>Clow = 250.1, Chigh = 500.0, Ilow = 401, Ihigh = 500\<rparr>]"

definition india_pm10Breaks :: "breakpoint list" where
  "india_pm10Breaks =
    [\<lparr>Clow = 0, Chigh = 50, Ilow = 0, Ihigh = 50\<rparr>,
     \<lparr>Clow = 51, Chigh = 100, Ilow = 51, Ihigh = 100\<rparr>,
     \<lparr>Clow = 101, Chigh = 250, Ilow = 101, Ihigh = 200\<rparr>,
     \<lparr>Clow = 251, Chigh = 350, Ilow = 201, Ihigh = 300\<rparr>,
     \<lparr>Clow = 351, Chigh = 430, Ilow = 301, Ihigh = 400\<rparr>,
     \<lparr>Clow = 431, Chigh = 500, Ilow = 401, Ihigh = 500\<rparr>]"

text \<open>\<open>Math.max(...subIdx)\<close>, called on a list that is not empty.\<close>

fun math_max :: "int list \<Rightarrow> int" where
  "math_max (x # xs) = fold max xs x"

text \<open>The two \<open>push\<close> statements that fill \<open>subIdx\<close>, and the result taken from it.\<close>

definition pushSubIndex :: "real option \<Rightarrow> breakpoint list \<Rightarrow> int list \<Rightarrow> int list" where
  "pushSubIndex v breaks subIdx =
     (case v of
        None \<Rightarrow> subIdx
      | Some Cp \<Rightarrow> (case computeSubIndex Cp breaks of None \<Rightarrow> subIdx | Some s \<Rightarrow> subIdx @ [s]))"

definition usAqiFromComponents :: "components option \<Rightarrow> int option" where
  "usAqiFromComponents cs =
     (case cs of
        None \<Rightarrow> None
      | Some c \<Rightarrow>
          let subIdx = pushSubIndex (pm10 c) us_pm10Breaks (pushSubIndex (pm2_5 c) us_pm25Breaks [])
          in if subIdx = [] then None else Some (math_max subIdx))"

definition indiaAqiFromComponents :: "components option \<Rightarrow> int option" where
  "indiaAqiFromComponents cs =
     (case cs of
        None \<Rightarrow> None
      | Some c \<Rightarrow>
          let subIdx =
                pushSubIndex (pm10 c) india_pm10Breaks (pushSubIndex (pm2_5 c) india_pm25Breaks [])
          in if subIdx = [] then None else Some (math_max subIdx))"

text \<open>\<open>const aqi = isIndia ? indiaAqiFromComponents(...) : usAqiFromComponents(...)\<close>.\<close>

definition aqi :: "bool \<Rightarrow> components option \<Rightarrow> int option" where
  "aqi isIndia cs = (if isIndia then indiaAqiFromComponents cs else usAqiFromComponents cs)"


section \<open>Symptom checker\<close>

subsection \<open>Knowledge base\<close>

datatype severity = Mild | Moderate | Severe

record SymptomData =
  conditions :: "string list"
  recommendations :: "string list"
  severity :: severity
  advice :: string

text \<open>The entries of the knowledge base, one definition for each.\<close>

definition entry_diarrhea :: SymptomData where
  "entry_diarrhea =
     \<lparr>conditions = [''Gastroenteritis (stomach flu)'',
                     ''Food poisoning'',
                     ''Irritable Bowel Syndrome (IBS)'',
                     ''Bacterial infection''],
      recommendations =
        [''Drink plenty of fluids (water, electrolyte solutions, clear broths)'',
         ''Avoid dairy, fatty foods, and caffeine'',
         ''Eat BRAT diet: Bananas, Rice, Applesauce, Toast'',
         ''Consider oral rehydration solutions to prevent dehydration''],
      severity = Moderate,
      advice =
        ''Diarrhea can lead to dehydration quickly. Drink plenty of fluids and seek medical attention if it lasts more than 2 days, you have signs of dehydration (dry mouth, dark urine, dizziness), or if you see blood in stool.''\<rparr>"

definition entry_loose_stool :: SymptomData where
  "entry_loose_stool =
     \<lparr>conditions = [''Gastroenteritis'',
                     ''Food intolerance'',
                     ''IBS'',
                     ''Bacterial infection''],
      recommendations =
        [''Stay hydrated with water and electrolyte drinks'',
         ''Avoid spicy, fatty, or dairy foods'',
         ''Eat bland foods like rice, bananas, and toast'',
         ''Rest and avoid strenuous activity''],
      severity = Moderate,
      advice =
        ''Monitor your symptoms. If loose stools persist for more than 3 days or are accompanied by fever, blood, or severe dehydration, consult a healthcare provider.''\<rparr>"

definition entry_constipation :: SymptomData where
  "entry_constipation =
     \<lparr>conditions = [''Dehydration'',
                     ''Dietary fiber deficiency'',
                     ''IBS'',
                     ''Medication side effects''],
      recommendations =
        [''Increase fiber intake (fruits, vegetables, whole grains)'',
         ''Drink plenty of water (8-10 glasses daily)'',
         ''Engage in regular physical activity'',
         ''Consider over-the-counter fiber supplements or stool softeners''],
      severity = Mild,
      advice =
        ''Most constipation resolves with dietary changes and increased hydration. See a doctor if it lasts more than 2 weeks, is severe, or accompanied by blood in stool.''\<rparr>"

definition entry_nausea :: SymptomData where
  "entry_nausea =
     \<lparr>conditions = [''Gastroenteritis'',
                     ''Food poisoning'',
                     ''Motion sickness'',
                     ''Pregnancy'',
                     ''Medication side effects''],
      recommendations =
        [''Eat small, bland meals throughout the day'',
         ''Avoid strong smells and spicy foods'',
         ''Stay hydrated with small sips of water or ginger tea'',
         ''Get fresh air and rest in a quiet environment''],
      severity = Moderate,
      advice =
        ''Nausea is usually temporary. Seek medical attention if it persists for more than 2 days, you cannot keep fluids down, or if you experience severe vomiting.''\<rparr>"

definition entry_vomiting :: SymptomData where
  "entry_vomiting =
     \<lparr>conditions = [''Gastroenteritis'',
                     ''Food poisoning'',
                     ''Viral infection'',
                     ''Migraine'',
                     ''Motion sickness''],
      recommendations =
        [''Rest and avoid solid foods for a few hours'',
         ''Sip small amounts of clear fluids (water, electrolyte solutions)'',
         ''Gradually reintroduce bland foods (crackers, toast)'',
         ''Avoid dairy, caffeine, and alcohol''],
      severity = Moderate,
      advice =
        ''Vomiting can cause dehydration. If vomiting persists for more than 24 hours, you cannot keep fluids down, see blood in vomit, or have signs of dehydration, seek immediate medical care.''\<rparr>"

definition entry_stomach_pain :: SymptomData where
  "entry_stomach_pain =
     \<lparr>conditions = [''Gastritis'',
                     ''Indigestion'',
                     ''IBS'',
                     ''Appendicitis (if severe)'',
                     ''Food poisoning''],
      recommendations =
        [''Avoid spicy, fatty, or acidic foods'',
         ''Eat smaller, more frequent meals'',
         ''Apply a warm compress to the abdomen'',
         ''Consider antacids for indigestion''],
      severity = Moderate,
      advice =
        ''Mild stomach pain often resolves with dietary changes. Seek immediate medical attention if pain is severe, persistent, located in lower right abdomen, or accompanied by fever, vomiting, or blood in stool.''\<rparr>"

definition entry_abdominal_pain :: SymptomData where
  "entry_abdominal_pain =
     \<lparr>conditions = [''Gastritis'',
                     ''Indigestion'',
                     ''IBS'',
                     ''Appendicitis (if severe)'',
                     ''Food poisoning''],
      recommendations =
        [''Avoid spicy, fatty, or acidic foods'',
         ''Eat smaller, more frequent meals'',
         ''Apply a warm compress to the abdomen'',
         ''Consider antacids for indigestion''],
      severity = Moderate,
      advice =
        ''Mild abdominal pain often resolves with dietary changes. Seek immediate medical attention if pain is severe, persistent, located in lower right abdomen, or accompanied by fever, vomiting, or blood in stool.''\<rparr>"

definition entry_cough :: SymptomData where
  "entry_cough =
     \<lparr>conditions = [''Common cold'',
                     ''Upper respiratory infection'',
                     ''Bronchitis'',
                     ''Allergies'',
                     ''Asthma''],
      recommendations =
        [''Stay hydrated with warm fluids (tea, soup)'',
         ''Use a humidifier or steam inhalation'',
         ''Avoid irritants like smoke and dust'',
         ''Get plenty of rest and consider cough drops''],
      severity = Moderate,
      advice =
        ''Most coughs resolve within 1-2 weeks. See a doctor if cough persists for more than 3 weeks, produces blood, is accompanied by chest pain or difficulty breathing, or if you have a high fever.''\<rparr>"

definition entry_sore_throat :: SymptomData where
  "entry_sore_throat =
     \<lparr>conditions = [''Viral pharyngitis'',
                     ''Strep throat (bacterial)'',
                     ''Common cold'',
                     ''Allergies''],
      recommendations =
        [''Gargle with warm salt water several times daily'',
         ''Drink warm fluids (tea with honey, soup)'',
         ''Use throat lozenges or sprays'',
         ''Rest your voice and avoid irritants''],
      severity = Moderate,
      advice =
        ''Most sore throats are viral and resolve in 3-7 days. See a doctor if symptoms persist, you have difficulty swallowing, high fever, or white spots on tonsils (possible strep throat).''\<rparr>"

definition entry_runny_nose :: SymptomData where
  "entry_runny_nose =
     \<lparr>conditions = [''Common cold'',
                     ''Allergies'',
                     ''Sinusitis'',
                     ''Viral infection''],
      recommendations =
        [''Use saline nasal spray or rinse'',
         ''Stay hydrated'',
         ''Use a humidifier'',
         ''Consider over-the-counter decongestants or antihistamines''],
      severity = Mild,
      advice =
        ''Runny nose is usually part of a cold or allergies. If it persists for more than 10 days, is accompanied by fever, or you have facial pain, consult a healthcare provider.''\<rparr>"

definition entry_nasal_congestion :: SymptomData where
  "entry_nasal_congestion =
     \<lparr>conditions = [''Common cold'',
                     ''Allergies'',
                     ''Sinusitis'',
                     ''Viral infection''],
      recommendations =
        [''Use saline nasal spray or rinse'',
         ''Apply warm compress to face'',
         ''Use a humidifier'',
         ''Consider over-the-counter decongestants''],
      severity = Mild,
      advice =
        ''Nasal congestion usually resolves with a cold. See a doctor if it lasts more than 10 days, is accompanied by fever or facial pain, or if you have difficulty breathing.''\<rparr>"

definition entry_difficulty_breathing :: SymptomData where
  "entry_difficulty_breathing =
     \<lparr>conditions = [''Asthma'',
                     ''Anxiety'',
                     ''Pneumonia'',
                     ''COPD'',
                     ''Allergic reaction''],
      recommendations =
        [''Sit upright and try to stay calm'',
         ''Avoid triggers (allergens, smoke)'',
         ''Use prescribed inhaler if available'',
         ''Seek immediate medical attention if severe''],
      severity = Severe,
      advice =
        ''Difficulty breathing requires immediate medical attention. Go to the emergency room if breathing is severely impaired, you have chest pain, or your lips/fingernails turn blue.''\<rparr>"

definition entry_headache :: SymptomData where
  "entry_headache =
     \<lparr>conditions = [''Tension headache'',
                     ''Migraine'',
                     ''Sinus headache'',
                     ''Dehydration'',
                     ''Eye strain''],
      recommendations =
        [''Rest in a dark, quiet room'',
         ''Apply cold or warm compress to forehead'',
         ''Stay hydrated'',
         ''Consider over-the-counter pain relievers (ibuprofen, acetaminophen)''],
      severity = Moderate,
      advice =
        ''Most headaches are tension-related and resolve with rest and pain relievers. Seek immediate medical attention if headache is sudden and severe (thunderclap), accompanied by fever/stiff neck, or if you have vision changes or confusion.''\<rparr>"

definition entry_migraine :: SymptomData where
  "entry_migraine =
     \<lparr>conditions = [''Migraine'',
                     ''Tension headache'',
                     ''Cluster headache''],
      recommendations =
        [''Rest in a dark, quiet room'',
         ''Apply cold compress to head'',
         ''Avoid triggers (bright lights, loud noises)'',
         ''Consider prescription migraine medication if available''],
      severity = Moderate,
      advice =
        ''Migraines can be debilitating. If you experience frequent migraines, see a doctor for proper diagnosis and treatment. Seek immediate care if migraine is accompanied by vision loss, confusion, or weakness.''\<rparr>"

definition entry_dizziness :: SymptomData where
  "entry_dizziness =
     \<lparr>conditions = [''Dehydration'',
                     ''Low blood pressure'',
                     ''Inner ear infection'',
                     ''Anemia'',
                     ''Vertigo''],
      recommendations =
        [''Sit or lie down immediately'',
         ''Stay hydrated'',
         ''Move slowly when changing positions'',
         ''Avoid sudden head movements''],
      severity = Moderate,
      advice =
        ''Dizziness can be caused by many factors. If it persists, is severe, or is accompanied by chest pain, difficulty speaking, or loss of consciousness, seek immediate medical attention.''\<rparr>"

definition entry_ear_pain :: SymptomData where
  "entry_ear_pain =
     \<lparr>conditions = [''Ear infection (otitis media)'',
                     ''Swimmer's ear'',
                     ''Eustachian tube dysfunction'',
                     ''TMJ disorder''],
      recommendations =
        [''Apply warm compress to affected ear'',
         ''Use over-the-counter pain relievers'',
         ''Avoid inserting anything into the ear'',
         ''Keep ear dry if it's an outer ear infection''],
      severity = Moderate,
      advice =
        ''Ear pain, especially in children, should be evaluated by a doctor. See a healthcare provider if pain is severe, persists more than 2 days, or is accompanied by fever, hearing loss, or discharge from the ear.''\<rparr>"

definition entry_fever :: SymptomData where
  "entry_fever =
     \<lparr>conditions = [''Viral infection'',
                     ''Bacterial infection'',
                     ''Inflammatory condition'',
                     ''Common cold'',
                     ''Flu''],
      recommendations =
        [''Stay hydrated with water and electrolyte drinks'',
         ''Rest and get plenty of sleep'',
         ''Take fever-reducing medication (acetaminophen or ibuprofen)'',
         ''Use cool compresses or lukewarm bath''],
      severity = Moderate,
      advice =
        (''Fever is usually a sign of infection. Seek medical attention if fever is above 103'' @ [CHR 0xB0] @ ''F (39.4'' @ [CHR 0xB0] @ ''C), persists for more than 3 days, is accompanied by severe symptoms, or if you have a weakened immune system.'')\<rparr>"

definition entry_chills :: SymptomData where
  "entry_chills =
     \<lparr>conditions = [''Viral infection'',
                     ''Bacterial infection'',
                     ''Fever'',
                     ''Flu'',
                     ''Common cold''],
      recommendations =
        [''Stay warm with blankets'',
         ''Rest and stay hydrated'',
         ''Monitor temperature'',
         ''Take fever-reducing medication if needed''],
      severity = Moderate,
      advice =
        ''Chills often accompany fever and infections. If chills are severe, persistent, or accompanied by high fever, seek medical attention.''\<rparr>"

definition entry_fatigue :: SymptomData where
  "entry_fatigue =
     \<lparr>conditions = [''Anemia'',
                     ''Sleep disorder'',
                     ''Chronic fatigue syndrome'',
                     ''Depression'',
                     ''Thyroid issues'',
                     ''Viral infection''],
      recommendations =
        [''Ensure adequate sleep (7-9 hours)'',
         ''Maintain a balanced diet'',
         ''Stay hydrated'',
         ''Engage in light exercise''],
      severity = Moderate,
      advice =
        ''Fatigue can have many causes. If it persists for more than 2 weeks, is severe, or is accompanied by other symptoms like weight loss or fever, consult a healthcare provider.''\<rparr>"

definition entry_body_ache :: SymptomData where
  "entry_body_ache =
     \<lparr>conditions = [''Viral infection'',
                     ''Flu'',
                     ''Fibromyalgia'',
                     ''Dehydration'',
                     ''Overexertion''],
      recommendations =
        [''Rest and allow body to recover'',
         ''Apply warm compresses to sore areas'',
         ''Take over-the-counter pain relievers'',
         ''Stay hydrated and maintain gentle movement''],
      severity = Moderate,
      advice =
        ''Body aches are common with infections like flu. If aches are severe, persistent, or accompanied by high fever, consult a healthcare provider.''\<rparr>"

definition entry_muscle_pain :: SymptomData where
  "entry_muscle_pain =
     \<lparr>conditions = [''Muscle strain'',
                     ''Overexertion'',
                     ''Fibromyalgia'',
                     ''Viral infection'',
                     ''Dehydration''],
      recommendations =
        [''Rest the affected muscles'',
         ''Apply ice for first 48 hours, then heat'',
         ''Gentle stretching and massage'',
         ''Take over-the-counter pain relievers''],
      severity = Mild,
      advice =
        ''Most muscle pain resolves with rest and self-care. See a doctor if pain is severe, persists for more than a week, or is accompanied by swelling, redness, or fever.''\<rparr>"

definition entry_rash :: SymptomData where
  "entry_rash =
     \<lparr>conditions = [''Allergic reaction'',
                     ''Contact dermatitis'',
                     ''Eczema'',
                     ''Viral infection'',
                     ''Heat rash''],
      recommendations =
        [''Avoid scratching the affected area'',
         ''Apply cool compresses or calamine lotion'',
         ''Use fragrance-free moisturizers'',
         ''Identify and avoid potential allergens''],
      severity = Moderate,
      advice =
        ''Most rashes are not serious. Seek medical attention if rash is widespread, accompanied by fever, difficulty breathing, or if it appears suddenly and spreads rapidly.''\<rparr>"

definition entry_itching :: SymptomData where
  "entry_itching =
     \<lparr>conditions = [''Allergic reaction'',
                     ''Dry skin'',
                     ''Eczema'',
                     ''Contact dermatitis'',
                     ''Insect bites''],
      recommendations =
        [''Apply cool compresses to itchy areas'',
         ''Use fragrance-free moisturizers'',
         ''Avoid hot showers and harsh soaps'',
         ''Consider over-the-counter antihistamines or hydrocortisone cream''],
      severity = Mild,
      advice =
        ''Mild itching usually resolves with self-care. See a doctor if itching is severe, persistent, widespread, or accompanied by rash, swelling, or difficulty breathing.''\<rparr>"

definition entry_chest_pain :: SymptomData where
  "entry_chest_pain =
     \<lparr>conditions = [''Heartburn/acid reflux'',
                     ''Anxiety'',
                     ''Muscle strain'',
                     ''Angina'',
                     ''Heart attack (if severe)''],
      recommendations =
        [''Rest and avoid strenuous activity'',
         ''If heartburn, avoid trigger foods and consider antacids'',
         ''Stay calm and monitor symptoms'',
         ''Seek immediate medical attention if severe''],
      severity = Severe,
      advice =
        ''Chest pain can be serious. Seek IMMEDIATE emergency medical attention if pain is severe, radiates to arm/jaw, is accompanied by shortness of breath, nausea, or sweating - these could indicate a heart attack.''\<rparr>"

definition entry_back_pain :: SymptomData where
  "entry_back_pain =
     \<lparr>conditions = [''Muscle strain'',
                     ''Poor posture'',
                     ''Herniated disc'',
                     ''Arthritis'',
                     ''Kidney infection''],
      recommendations =
        [''Rest and avoid heavy lifting'',
         ''Apply ice for first 48 hours, then heat'',
         ''Practice good posture'',
         ''Gentle stretching and over-the-counter pain relievers''],
      severity = Moderate,
      advice =
        ''Most back pain improves with rest and self-care. See a doctor if pain is severe, persists for more than 2 weeks, radiates down legs, or is accompanied by numbness, weakness, or loss of bladder control.''\<rparr>"

definition entry_joint_pain :: SymptomData where
  "entry_joint_pain =
     \<lparr>conditions = [''Arthritis'',
                     ''Injury'',
                     ''Bursitis'',
                     ''Gout'',
                     ''Overuse''],
      recommendations =
        [''Rest the affected joint'',
         ''Apply ice to reduce inflammation'',
         ''Take over-the-counter anti-inflammatory medication'',
         ''Gentle range-of-motion exercises''],
      severity = Moderate,
      advice =
        ''Joint pain can have various causes. If pain is severe, persistent, or accompanied by swelling, redness, or fever, consult a healthcare provider.''\<rparr>"

definition entry_eye_pain :: SymptomData where
  "entry_eye_pain =
     \<lparr>conditions = [''Eye strain'',
                     ''Dry eyes'',
                     ''Conjunctivitis'',
                     ''Sinusitis'',
                     ''Foreign object''],
      recommendations =
        [''Rest eyes and avoid screens'',
         ''Use artificial tears for dry eyes'',
         ''Apply warm compress'',
         ''Avoid rubbing eyes''],
      severity = Moderate,
      advice =
        ''Eye pain should be evaluated by a doctor, especially if it's severe, accompanied by vision changes, discharge, or sensitivity to light.''\<rparr>"

definition entry_sore_muscles :: SymptomData where
  "entry_sore_muscles =
     \<lparr>conditions = [''Muscle strain'',
                     ''Overexertion'',
                     ''Delayed onset muscle soreness (DOMS)'',
                     ''Viral infection''],
      recommendations =
        [''Rest and allow muscles to recover'',
         ''Apply ice for first 48 hours, then heat'',
         ''Gentle stretching and massage'',
         ''Stay hydrated and take over-the-counter pain relievers''],
      severity = Mild,
      advice =
        ''Sore muscles usually resolve with rest. If pain is severe, persists for more than a week, or is accompanied by swelling or fever, consult a healthcare provider.''\<rparr>"

text \<open>
  The object literal \<open>symptomDatabase\<close>, as the list of its own properties in the order
  \<open>Object.entries\<close> gives them, which for these names is the order of the source.
\<close>

definition symptomDatabase :: "(string \<times> SymptomData) list" where
  "symptomDatabase =
   [(''diarrhea'', entry_diarrhea),
    (''loose stool'', entry_loose_stool),
    (''constipation'', entry_constipation),
    (''nausea'', entry_nausea),
    (''vomiting'', entry_vomiting),
    (''stomach pain'', entry_stomach_pain),
    (''abdominal pain'', entry_abdominal_pain),
    (''cough'', entry_cough),
    (''sore throat'', entry_sore_throat),
    (''runny nose'', entry_runny_nose),
    (''nasal congestion'', entry_nasal_congestion),
    (''difficulty breathing'', entry_difficulty_breathing),
    (''headache'', entry_headache),
    (''migraine'', entry_migraine),
    (''dizziness'', entry_dizziness),
    (''ear pain'', entry_ear_pain),
    (''fever'', entry_fever),
    (''chills'', entry_chills),
    (''fatigue'', entry_fatigue),
    (''body ache'', entry_body_ache),
    (''muscle pain'', entry_muscle_pain),
    (''rash'', entry_rash),
    (''itching'', entry_itching),
    (''chest pain'', entry_chest_pain),
    (''back pain'', entry_back_pain),
    (''joint pain'', entry_joint_pain),
    (''eye pain'', entry_eye_pain),
    (''sore muscles'', entry_sore_muscles)]"

text \<open>
  \<open>symptomDatabase[k]\<close>. The object is written as a literal, so besides its own
  properties it has those of \<open>Object.prototype\<close>: for one of these names the lookup gives a
  function or an object, which is truthy and has none of the four fields of an entry.
\<close>

datatype 'a js_property = Own 'a | Inherited | Absent

definition prototypeNames :: "string list" where
  "prototypeNames =
     [''constructor'', ''hasOwnProperty'', ''isPrototypeOf'', ''propertyIsEnumerable'',
      ''toLocaleString'', ''toString'', ''valueOf'', ''__proto__'', ''__defineGetter__'',
      ''__defineSetter__'', ''__lookupGetter__'', ''__lookupSetter__'']"

definition dbGet :: "string \<Rightarrow> SymptomData js_property" where
  "dbGet k =
     (case map_of symptomDatabase k of
        Some d \<Rightarrow> Own d
      | None \<Rightarrow> if k \<in> set prototypeNames then Inherited else Absent)"

text \<open>\<open>data.f\<close> for the value of a truthy lookup; \<open>None\<close> is \<open>undefined\<close>.\<close>

fun field :: "('a \<Rightarrow> 'b) \<Rightarrow> 'a js_property \<Rightarrow> 'b option" where
  "field f (Own d) = Some (f d)"
| "field f p = None"

text \<open>
  The loop \<open>for (const [key, data] of Object.entries(symptomDatabase))\<close> that returns at
  the first key contained in the input or containing it.
\<close>

definition keyMatches :: "string \<Rightarrow> string \<Rightarrow> bool" where
  "keyMatches lowerSymptoms key = (includes_str lowerSymptoms key \<or> includes_str key lowerSymptoms)"

fun partialMatch :: "string \<Rightarrow> (string \<times> SymptomData) list \<Rightarrow> (string \<times> SymptomData) option" where
  "partialMatch lowerSymptoms [] = None"
| "partialMatch lowerSymptoms ((key, data) # rest) =
     (if keyMatches lowerSymptoms key then Some (key, data)
      else partialMatch lowerSymptoms rest)"

subsection \<open>Heuristics\<close>

definition severeKeywords :: "string list" where
  "severeKeywords =
     [''severe'', ''extreme'', ''unbearable'', ''emergency'', ''chest pain'',
      ''difficulty breathing'', ''loss of consciousness'']"

definition mildKeywords :: "string list" where
  "mildKeywords = [''mild'', ''slight'', ''minor'', ''occasional'']"

definition assessSeverity :: "string \<Rightarrow> severity" where
  "assessSeverity symptoms =
     (if list_ex (includes_str symptoms) severeKeywords then Severe
      else if list_ex (includes_str symptoms) mildKeywords then Mild
      else Moderate)"

text \<open>
  \<open>foundSymptoms.sort(compare)\<close>: the sort of an array is stable, which for this
  comparison is the result of inserting each element before the first one it does not
  come after.
\<close>

definition compareFound :: "string \<Rightarrow> (string \<times> SymptomData) \<Rightarrow> (string \<times> SymptomData) \<Rightarrow> int" where
  "compareFound lowerSymptoms a b =
     (if fst a = lowerSymptoms then - 1
      else if fst b = lowerSymptoms then 1
      else int (length (fst b)) - int (length (fst a)))"

fun insertFound :: "('a \<Rightarrow> 'a \<Rightarrow> int) \<Rightarrow> 'a \<Rightarrow> 'a list \<Rightarrow> 'a list" where
  "insertFound cmp x [] = [x]"
| "insertFound cmp x (y # ys) = (if cmp x y \<le> 0 then x # y # ys else y # insertFound cmp x ys)"

definition sortFound :: "('a \<Rightarrow> 'a \<Rightarrow> int) \<Rightarrow> 'a list \<Rightarrow> 'a list" where
  "sortFound cmp xs = foldr (insertFound cmp) xs []"

definition keywordMap :: "(string \<times> string list) list" where
  "keywordMap =
   [(''stomach'', [''Gastritis'', ''Indigestion'', ''IBS'']),
    (''belly'', [''Gastritis'', ''Indigestion'', ''IBS'']),
    (''throat'', [''Viral pharyngitis'', ''Strep throat'', ''Common cold'']),
    (''nose'', [''Common cold'', ''Allergies'', ''Sinusitis'']),
    (''chest'', [''Heartburn'', ''Anxiety'', ''Muscle strain'']),
    (''back'', [''Muscle strain'', ''Poor posture'', ''Herniated disc'']),
    (''joint'', [''Arthritis'', ''Injury'', ''Bursitis'']),
    (''muscle'', [''Muscle strain'', ''Overexertion'', ''Fibromyalgia'']),
    (''eye'', [''Eye strain'', ''Dry eyes'', ''Conjunctivitis'']),
    (''ear'', [''Ear infection'', ''Swimmer's ear'', ''Eustachian tube dysfunction''])]"

fun keywordConditions :: "string \<Rightarrow> (string \<times> string list) list \<Rightarrow> string list option" where
  "keywordConditions lowerSymptoms [] = None"
| "keywordConditions lowerSymptoms ((keyword, conds) # rest) =
     (if includes_str lowerSymptoms keyword then Some conds
      else keywordConditions lowerSymptoms rest)"

text \<open>
  The result is \<open>None\<close> when the function returns \<open>undefined\<close>, the field \<open>conditions\<close> of
  an inherited property. \<open>hd\<close> reads \<open>foundSymptoms[0]\<close> of an array that the test before
  has found not empty.
\<close>

definition extractConditionsFromSymptoms :: "string \<Rightarrow> string list option" where
  "extractConditionsFromSymptoms symptoms =
     (let lowerSymptoms = trim (toLowerCase symptoms)
      in case dbGet lowerSymptoms of
           Own d \<Rightarrow> Some (conditions d)
         | Inherited \<Rightarrow> None
         | Absent \<Rightarrow>
             let foundSymptoms = filter (\<lambda>(key, data). keyMatches lowerSymptoms key) symptomDatabase
             in if length foundSymptoms > 0
                then Some (conditions (snd (hd (sortFound (compareFound lowerSymptoms) foundSymptoms))))
                else (case keywordConditions lowerSymptoms keywordMap of
                        Some conds \<Rightarrow> Some conds
                      | None \<Rightarrow>
                          Some [''General symptoms - consult a healthcare provider for proper diagnosis'']))"

definition keywordRecommendations :: "string \<Rightarrow> string list" where
  "keywordRecommendations lowerSymptoms =
     (if includes_str lowerSymptoms ''fever'' \<or> includes_str lowerSymptoms ''temperature'' then
        [''Stay hydrated with water and electrolyte drinks'',
         ''Rest and get plenty of sleep'',
         ''Take fever-reducing medication (acetaminophen or ibuprofen)'',
         ''Monitor temperature regularly'']
      else if includes_str lowerSymptoms ''pain'' \<or> includes_str lowerSymptoms ''ache'' then
        [''Rest the affected area'',
         ''Apply ice for first 48 hours, then heat'',
         ''Take over-the-counter pain relievers (ibuprofen or acetaminophen)'',
         ''Avoid activities that worsen the pain'']
      else if includes_str lowerSymptoms ''cough'' \<or> includes_str lowerSymptoms ''cold'' then
        [''Stay hydrated with warm fluids (tea, soup)'',
         ''Use a humidifier or steam inhalation'',
         ''Get plenty of rest'',
         ''Consider cough drops or over-the-counter cough medicine'']
      else if includes_str lowerSymptoms ''nausea'' \<or> includes_str lowerSymptoms ''vomit'' then
        [''Eat small, bland meals throughout the day'',
         ''Stay hydrated with small sips of water or electrolyte drinks'',
         ''Avoid strong smells and spicy foods'',
         ''Get fresh air and rest in a quiet environment'']
      else if includes_str lowerSymptoms ''headache'' \<or> includes_str lowerSymptoms ''head'' then
        [''Rest in a dark, quiet room'',
         ''Apply cold or warm compress to forehead'',
         ''Stay hydrated'',
         ''Consider over-the-counter pain relievers'']
      else
        [''Get adequate rest (7-9 hours of sleep)'',
         ''Stay hydrated with water'',
         ''Monitor symptoms closely'',
         ''Avoid triggers that may worsen symptoms''])"

definition getDefaultRecommendations :: "string \<Rightarrow> string list option" where
  "getDefaultRecommendations symptoms =
     (let lowerSymptoms = trim (toLowerCase symptoms)
      in case dbGet lowerSymptoms of
           Own d \<Rightarrow> Some (recommendations d)
         | Inherited \<Rightarrow> None
         | Absent \<Rightarrow>
             (case partialMatch lowerSymptoms symptomDatabase of
                Some (key, data) \<Rightarrow> Some (recommendations data)
              | None \<Rightarrow> Some (take 4 (keywordRecommendations lowerSymptoms))))"

text \<open>The \<open>switch\<close> on a severity; its \<open>default\<close> branch is reached by none of the three tiers.\<close>

definition severityAdvice :: "severity \<Rightarrow> string" where
  "severityAdvice sev =
     (case sev of
        Severe \<Rightarrow> ''These symptoms may require immediate medical attention. Please consult a healthcare provider or visit an emergency room immediately, especially if symptoms are worsening or you have difficulty breathing, chest pain, or loss of consciousness.''
      | Moderate \<Rightarrow> ''Monitor your symptoms closely. If they persist for more than 2-3 days, worsen, or are accompanied by fever, severe pain, or other concerning symptoms, consult a healthcare provider for proper evaluation and treatment.''
      | Mild \<Rightarrow> ''These symptoms are typically mild and may resolve with self-care including rest, hydration, and over-the-counter remedies. However, if symptoms persist for more than a week, worsen, or you have concerns, consult a healthcare provider for proper diagnosis.'')"

text \<open>
  The second argument is \<open>None\<close> when the caller leaves it out. \<open>symptoms\<close> is truthy when
  it is given and not empty.
\<close>

definition getDefaultAdvice :: "severity \<Rightarrow> string option \<Rightarrow> string option" where
  "getDefaultAdvice sev symptoms =
     (let lowerSymptoms = (case symptoms of None \<Rightarrow> [] | Some s \<Rightarrow> trim (toLowerCase s));
          given = (case symptoms of None \<Rightarrow> False | Some s \<Rightarrow> s \<noteq> [])
      in if given \<and> dbGet lowerSymptoms \<noteq> Absent then field advice (dbGet lowerSymptoms)
         else case (if given then partialMatch lowerSymptoms symptomDatabase else None) of
                Some (key, data) \<Rightarrow> Some (advice data)
              | None \<Rightarrow> Some (severityAdvice sev))"

subsection \<open>Analysis\<close>

text \<open>
  The interface \<open>SymptomAnalysis\<close>. A field is \<open>None\<close> when the object the function returns
  holds \<open>undefined\<close> there. The last three fields carry the prefix \<open>res\<close>, their names being
  those of the fields of an entry.
\<close>

record SymptomAnalysis =
  possibleConditions :: "string list option"
  resRecommendations :: "string list option"
  resSeverity :: "severity option"
  resAdvice :: "string option"

definition entryAnalysis :: "SymptomData js_property \<Rightarrow> SymptomAnalysis" where
  "entryAnalysis data =
     \<lparr>possibleConditions = field conditions data,
      resRecommendations = field recommendations data,
      resSeverity = field severity data,
      resAdvice = field advice data\<rparr>"

definition getFallbackAnalysis :: "string \<Rightarrow> SymptomAnalysis" where
  "getFallbackAnalysis symptoms =
     (let lowerSymptoms = trim (toLowerCase symptoms)
      in if dbGet lowerSymptoms \<noteq> Absent then entryAnalysis (dbGet lowerSymptoms)
         else case partialMatch lowerSymptoms symptomDatabase of
                Some (key, data) \<Rightarrow> entryAnalysis (Own data)
              | None \<Rightarrow>
                  let sev = assessSeverity lowerSymptoms
                  in \<lparr>possibleConditions = extractConditionsFromSymptoms lowerSymptoms,
                      resRecommendations = getDefaultRecommendations lowerSymptoms,
                      resSeverity = Some sev,
                      resAdvice = getDefaultAdvice sev (Some lowerSymptoms)\<rparr>)"

subsection \<open>Parsing the remote text\<close>

text \<open>
  The three patterns \<open>/CONDITIONS?:\s*([^|]+)/i\<close>, \<open>/RECOMMENDATIONS?:\s*([^|]+)/i\<close> and
  \<open>/ADVICE:\s*([^|]+)/i\<close> have the same shape: a label without regard to case, then white
  space, then the group, a run of at least one character other than the bar.
  \<open>afterLabel\<close> matches the label at the start of \<open>rest\<close>, the longer spelling first, and
  gives what follows it. The label is in ASCII, and lower-casing maps no other code unit
  onto an ASCII letter.
\<close>

fun afterLabel :: "string list \<Rightarrow> string \<Rightarrow> string option" where
  "afterLabel [] rest = None"
| "afterLabel (lit # lits) rest =
     (if startsWith (toLowerCase rest) lit then Some (drop (length lit) rest)
      else afterLabel lits rest)"

text \<open>
  \<open>\s*([^|]+)\<close> at the start of \<open>r\<close>. The white space is taken greedily; the group then
  runs up to the next bar or the end. When nothing but a bar or the end follows the white
  space, the matcher gives back the last white-space character, which becomes the group;
  with no white space to give back there is no match here.
\<close>

definition captureGroup :: "string \<Rightarrow> string option" where
  "captureGroup r =
     (let ws = takeWhile isSpace r;
          backtrack = (if ws = [] then None else Some [last ws])
      in case dropWhile isSpace r of
           [] \<Rightarrow> backtrack
         | c # cs \<Rightarrow>
             if c = CHR ''|'' then backtrack
             else Some (takeWhile (\<lambda>x. x \<noteq> CHR ''|'') (c # cs)))"

definition matchAt :: "string list \<Rightarrow> string \<Rightarrow> string option" where
  "matchAt lits rest = (case afterLabel lits rest of None \<Rightarrow> None | Some r \<Rightarrow> captureGroup r)"

text \<open>
  \<open>aiText.match(pattern)\<close>: the group of the leftmost match, \<open>None\<close> for \<open>null\<close>. No label is
  empty, so nothing matches at the end of the text.
\<close>

fun regexSearch :: "string list \<Rightarrow> string \<Rightarrow> string option" where
  "regexSearch lits [] = None"
| "regexSearch lits (c # cs) =
     (case matchAt lits (c # cs) of
        Some g \<Rightarrow> Some g
      | None \<Rightarrow> regexSearch lits cs)"

text \<open>\<open>s.split(/[,;]/)\<close>: the pieces between the separators, empty ones included.\<close>

fun splitOn :: "(char \<Rightarrow> bool) \<Rightarrow> string \<Rightarrow> string list" where
  "splitOn sep [] = [[]]"
| "splitOn sep (c # cs) =
     (if sep c then [] # splitOn sep cs
      else (case splitOn sep cs of w # ws \<Rightarrow> (c # w) # ws | [] \<Rightarrow> [[c]]))"

text \<open>\<open>.split(/[,;]/).map((c) => c.trim()).filter(Boolean).slice(0, 3)\<close>.\<close>

definition listItems :: "string \<Rightarrow> string list" where
  "listItems g =
     take 3 (filter (\<lambda>x. x \<noteq> []) (map trim (splitOn (\<lambda>c. c = CHR '','' \<or> c = CHR '';'') g)))"

datatype js_error = InvalidInput | TypeError

text \<open>
  \<open>conditions.length\<close> in the returned object throws a \<open>TypeError\<close> when \<open>conditions\<close> is
  \<open>undefined\<close>; everything before it is free of effects.
\<close>

definition parseAIResponse :: "string \<Rightarrow> string \<Rightarrow> js_error + SymptomAnalysis" where
  "parseAIResponse aiText originalSymptoms =
     (let lowerText = toLowerCase aiText;
          lowerSymptoms = toLowerCase originalSymptoms;
          conds = (case regexSearch [''conditions:'', ''condition:''] aiText of
                     Some g \<Rightarrow> Some (listItems g)
                   | None \<Rightarrow> extractConditionsFromSymptoms lowerSymptoms);
          recs = (case regexSearch [''recommendations:'', ''recommendation:''] aiText of
                    Some g \<Rightarrow> Some (listItems g)
                  | None \<Rightarrow> getDefaultRecommendations lowerSymptoms);
          sev = (if includes_str lowerText ''severe'' \<or> includes_str lowerText ''emergency'' then Severe
                 else if includes_str lowerText ''mild'' \<or> includes_str lowerText ''minor'' then Mild
                 else assessSeverity lowerSymptoms);
          adv = (case regexSearch [''advice:''] aiText of
                   Some g \<Rightarrow> Some (trim g)
                 | None \<Rightarrow> getDefaultAdvice sev None)
      in case conds of
           None \<Rightarrow> Inl TypeError
         | Some cs \<Rightarrow>
             Inr \<lparr>possibleConditions = Some (if length cs > 0 then cs else [''General symptoms'']),
                  resRecommendations = recs,
                  resSeverity = Some sev,
                  resAdvice = adv\<rparr>)"

text \<open>
  What the request gives \<open>analyzeSymptoms\<close>: the \<open>generated_text\<close> of a successful response
  in one of the two shapes, or no text (the request fails, the status is not ok, or the
  body has another shape or cannot be read). An empty text is falsy. Whatever is thrown
  after the first test is caught, and the fallback is returned.
\<close>

datatype remote = Generated string | NoText

definition analyzeSymptoms :: "string \<Rightarrow> remote \<Rightarrow> js_error + SymptomAnalysis" where
  "analyzeSymptoms symptoms response =
     (if trim symptoms = [] then Inl InvalidInput
      else case response of
             NoText \<Rightarrow> Inr (getFallbackAnalysis symptoms)
           | Generated aiText \<Rightarrow>
               if aiText = [] then Inr (getFallbackAnalysis symptoms)
               else (case parseAIResponse aiText symptoms of
                       Inr a \<Rightarrow> Inr a
                     | Inl e \<Rightarrow> Inr (getFallbackAnalysis symptoms)))"


section \<open>Notions used in the statements\<close>

subsection \<open>Scheduler\<close>

text \<open>
  The two conditions under which the loop triggers a reminder, in the words of the
  specification: the reminder is enabled and its snooze is due; or it is enabled, its
  time is the current minute, it has not fired under the current key, and a weekly
  reminder lists the current weekday.
\<close>

definition snoozeReady :: "clock \<Rightarrow> reminder \<Rightarrow> bool" where
  "snoozeReady ck r = (enabled r \<and> snoozeDue ck r)"

definition freshTimeMatch :: "clock \<Rightarrow> reminder \<Rightarrow> bool" where
  "freshTimeMatch ck r =
     (enabled r \<and> time r = currentTime ck \<and> lastTriggeredKey r \<noteq> Some (currentKey ck) \<and>
      (repeat r = Weekly \<longrightarrow> (\<exists>ds. daysOfWeek r = Some ds \<and> dow ck \<in> set ds)))"

text \<open>
  Sample data. \<open>at0805\<close> is 08:05:00 on Wednesday 1 May 2024 (UTC) in epoch milliseconds;
  \<open>clockAt t ms\<close> is a reading of the clock on that day, in a time zone without offset,
  \<open>ms\<close> milliseconds after that instant. Then a daily reminder, and a page that holds a
  list of reminders.
\<close>

definition at0805 :: int where
  "at0805 = 1714550700000"

definition clockAt :: "string \<Rightarrow> int \<Rightarrow> clock" where
  "clockAt t ms = \<lparr>currentTime = t, dateKey = ''2024-05-01'', dow = 3, nowMs = at0805 + ms\<rparr>"

definition dailyAt :: "string \<Rightarrow> string \<Rightarrow> reminder" where
  "dailyAt i t =
     \<lparr>rem_id = i, title = ''Aspirin 100mg'', time = t, enabled = True, repeat = Daily,
      daysOfWeek = None, lastTriggeredKey = None, nextSnoozeAt = None\<rparr>"

definition pageOf :: "reminder list \<Rightarrow> page" where
  "pageOf rs = \<lparr>reminders = rs, activeReminderId = None, isPlaying = False\<rparr>"

subsection \<open>Persistence\<close>

definition all_days_invariant :: "page \<Rightarrow> bool" where
  "all_days_invariant st = list_all days_invariant (reminders st)"





text \<open>
  Sample stored objects: one that passes the validation, one whose \<open>enabled\<close> is a string,
  a daily reminder that carries \<open>daysOfWeek\<close>, a weekly one that does not, and one whose
  \<open>nextSnoozeAt\<close> is a string.
\<close>

definition goodItem :: json where
  "goodItem =
     JObj [(''id'', JStr ''a''), (''title'', JStr ''Aspirin 100mg''), (''time'', JStr ''08:00''),
           (''enabled'', JBool True), (''repeat'', JStr ''daily'')]"

definition badItem :: json where
  "badItem =
     JObj [(''id'', JStr ''b''), (''title'', JStr ''Vitamin D''), (''time'', JStr ''09:00''),
           (''enabled'', JStr ''yes''), (''repeat'', JStr ''daily'')]"

definition daysOnDaily :: json where
  "daysOnDaily =
     JObj [(''id'', JStr ''c''), (''title'', JStr ''Iron''), (''time'', JStr ''07:30''),
           (''enabled'', JBool True), (''repeat'', JStr ''daily''),
           (''daysOfWeek'', JArr [JNum 1, JNum 3])]"

definition weeklyNoDays :: json where
  "weeklyNoDays =
     JObj [(''id'', JStr ''d''), (''title'', JStr ''Iron''), (''time'', JStr ''07:30''),
           (''enabled'', JBool True), (''repeat'', JStr ''weekly'')]"

definition snoozeString :: json where
  "snoozeString =
     JObj [(''id'', JStr ''e''), (''title'', JStr ''Zinc''), (''time'', JStr ''10:00''),
           (''enabled'', JBool True), (''repeat'', JStr ''daily''),
           (''nextSnoozeAt'', JStr ''1000'')]"

subsection \<open>Air quality index\<close>

text \<open>
  The specification's notions: a concentration lies in an interval; the sub-index of a
  pollutant, when it has a reading; and the dominant-pollutant rule, the maximum of the
  sub-indices that exist and nothing when there is none.
\<close>

definition inInterval :: "real \<Rightarrow> breakpoint \<Rightarrow> bool" where
  "inInterval C bp = (Clow bp \<le> C \<and> C \<le> Chigh bp)"

text \<open>
  The interpolation for an interval and a concentration: as the source evaluates it, in
  the arithmetic of doubles, and as the formula reads in exact arithmetic.
\<close>

definition interpolate :: "breakpoint \<Rightarrow> real \<Rightarrow> int" where
  "interpolate bp C =
     js_round
       (dadd (dmul (ddiv (dsub (fl (Ihigh bp)) (fl (Ilow bp)))
                         (dsub (fl (Chigh bp)) (fl (Clow bp))))
                   (dsub (fl C) (fl (Clow bp))))
             (fl (Ilow bp)))"

definition exactInterpolate :: "breakpoint \<Rightarrow> real \<Rightarrow> int" where
  "exactInterpolate bp C =
     js_round ((Ihigh bp - Ilow bp) / (Chigh bp - Clow bp) * (C - Clow bp) + Ilow bp)"

definition subIndexOf :: "real option \<Rightarrow> breakpoint list \<Rightarrow> int option" where
  "subIndexOf v breaks = (case v of None \<Rightarrow> None | Some Cp \<Rightarrow> computeSubIndex Cp breaks)"

fun dominant :: "int option \<Rightarrow> int option \<Rightarrow> int option" where
  "dominant None None = None"
| "dominant (Some a) None = Some a"
| "dominant None (Some b) = Some b"
| "dominant (Some a) (Some b) = Some (max a b)"

text \<open>Every interval of a table ends before any later one begins.\<close>

fun separated :: "breakpoint list \<Rightarrow> bool" where
  "separated [] = True"
| "separated (b # bs) = (list_all (\<lambda>x. Chigh b < Clow x) bs \<and> separated bs)"


section \<open>Properties of the scheduler\<close>

lemmas example_defs = at0805_def clockAt_def dailyAt_def pageOf_def check_reminder_def snoozeDue_def
  currentKey_def tick_def triggerReminder_def snoozeReady_def freshTimeMatch_def

lemma check_reminder_None:
  "check_reminder ck r = None \<longleftrightarrow> \<not> snoozeReady ck r \<and> \<not> freshTimeMatch ck r"
  by (auto simp: check_reminder_def snoozeReady_def freshTimeMatch_def split: option.splits)

lemma check_reminder_Snooze:
  "check_reminder ck r = Some SnoozePath \<longleftrightarrow> snoozeReady ck r"
  by (auto simp: check_reminder_def snoozeReady_def split: option.splits)

lemma check_reminder_Time:
  "check_reminder ck r = Some TimePath \<longleftrightarrow> \<not> snoozeReady ck r \<and> freshTimeMatch ck r"
  by (auto simp: check_reminder_def snoozeReady_def freshTimeMatch_def split: option.splits)

lemma scheduler_loop_Some:
  "scheduler_loop ck rs = Some (r, p) \<Longrightarrow> r \<in> set rs \<and> check_reminder ck r = Some p"
  by (induction rs) (auto split: option.splits)

lemma scheduler_loop_first:
  "\<forall>x\<in>set pre. check_reminder ck x = None \<Longrightarrow> check_reminder ck r = Some p \<Longrightarrow>
   scheduler_loop ck (pre @ r # post) = Some (r, p)"
  by (induction pre) auto

lemma trigger_keeps_other:
  "rem_id r \<noteq> rem_id r0 \<Longrightarrow> r0 \<in> set (reminders st) \<Longrightarrow>
   r0 \<in> set (reminders (triggerReminder r key st))"
  by (auto simp: triggerReminder_def image_iff intro!: bexI [of _ r0])

lemma trigger_same_id:
  "x \<in> set (reminders (triggerReminder r key st)) \<Longrightarrow> rem_id x = rem_id r0 \<Longrightarrow>
   rem_id r \<noteq> rem_id r0 \<Longrightarrow> x \<in> set (reminders st)"
  by (auto simp: triggerReminder_def split: if_splits)

lemma trigger_keeps_snooze:
  "map nextSnoozeAt (reminders (triggerReminder rem key st)) = map nextSnoozeAt (reminders st)"
  by (simp add: triggerReminder_def)

lemma tick_keeps_snooze:
  "map nextSnoozeAt (reminders (tick ck st)) = map nextSnoozeAt (reminders st)"
  by (simp add: tick_def trigger_keeps_snooze split: option.splits prod.splits)

text \<open>
  C1. A reminder triggered through the snooze test should come out of the trigger with
  \<open>nextSnoozeAt\<close> cleared, so that the next run of the callback does not trigger it again
  through the same test. \<open>triggerReminder\<close> writes \<open>lastTriggeredKey\<close> and \<open>enabled\<close> only. For
  a daily reminder of 08:00 that was snoozed until 08:05:00, the run two seconds after
  that instant triggers it by the snooze test and leaves \<open>nextSnoozeAt\<close> as it was, and the
  run five seconds later triggers it by the snooze test again.
\<close>

theorem snooze_not_cleared:
  "fired_in [clockAt ''08:05'' 2000, clockAt ''08:05'' 7000]
            (pageOf [(dailyAt ''a'' ''08:00'')\<lparr>nextSnoozeAt := Some at0805\<rparr>])
   = [((dailyAt ''a'' ''08:00'')\<lparr>nextSnoozeAt := Some at0805\<rparr>, SnoozePath),
      ((dailyAt ''a'' ''08:00'')\<lparr>nextSnoozeAt := Some at0805,
                                 lastTriggeredKey := Some ''2024-05-01-08:05''\<rparr>, SnoozePath)]
   \<and> map nextSnoozeAt
        (reminders (tick (clockAt ''08:05'' 2000)
                         (pageOf [(dailyAt ''a'' ''08:00'')\<lparr>nextSnoozeAt := Some at0805\<rparr>])))
     = [Some at0805]"
  by (simp add: example_defs)

text \<open>
  C2, as stated, fails: the snooze test has priority within one reminder, not over the
  list. With a fresh time match placed before a snooze-due reminder, the run triggers the
  time match and not the snoozed reminder.
\<close>

theorem time_match_before_snooze:
  "snoozeReady (clockAt ''08:05'' 2000) ((dailyAt ''s'' ''07:00'')\<lparr>nextSnoozeAt := Some at0805\<rparr>)
   \<and> freshTimeMatch (clockAt ''08:05'' 2000) (dailyAt ''t'' ''08:05'')
   \<and> fired_in [clockAt ''08:05'' 2000]
        (pageOf [dailyAt ''t'' ''08:05'', (dailyAt ''s'' ''07:00'')\<lparr>nextSnoozeAt := Some at0805\<rparr>])
      = [(dailyAt ''t'' ''08:05'', TimePath)]"
  by (simp add: example_defs)

text \<open>
  C2, amended. A run of the callback triggers exactly one reminder when any reminder is
  snooze-due or a fresh time match: the first such reminder in the order of the list, by
  the snooze test if its snooze is due and by the time test otherwise. So a snooze-due
  reminder is the one triggered when no reminder before it in the list is snooze-due or a
  fresh time match, and no reminder after it is triggered in that run.
\<close>

theorem first_match_fires:
  assumes "reminders st = pre @ r # post"
    and "\<forall>x\<in>set pre. \<not> snoozeReady ck x \<and> \<not> freshTimeMatch ck x"
    and "snoozeReady ck r \<or> freshTimeMatch ck r"
  shows "fired_in [ck] st = [(r, if snoozeReady ck r then SnoozePath else TimePath)]"
proof -
  have pre: "\<forall>x\<in>set pre. check_reminder ck x = None"
    using assms(2) by (simp add: check_reminder_None)
  have "check_reminder ck r = Some (if snoozeReady ck r then SnoozePath else TimePath)"
    using assms(3) by (auto simp: check_reminder_Snooze check_reminder_Time)
  from scheduler_loop_first [OF pre this] show ?thesis
    by (simp add: assms(1))
qed

text \<open>
  A disabled reminder, then a snooze-due one, then a fresh time match: the snoozed
  reminder is triggered, and it alone.
\<close>

theorem first_match_fires_witness:
  "fired_in [clockAt ''08:05'' 2000]
     (pageOf [(dailyAt ''d'' ''08:05'')\<lparr>enabled := False\<rparr>,
              (dailyAt ''s'' ''07:00'')\<lparr>nextSnoozeAt := Some at0805\<rparr>,
              dailyAt ''t'' ''08:05''])
   = [((dailyAt ''s'' ''07:00'')\<lparr>nextSnoozeAt := Some at0805\<rparr>, SnoozePath)]
   \<and> freshTimeMatch (clockAt ''08:05'' 2000) (dailyAt ''t'' ''08:05'')"
  using first_match_fires [of
      "pageOf [(dailyAt ''d'' ''08:05'')\<lparr>enabled := False\<rparr>,
               (dailyAt ''s'' ''07:00'')\<lparr>nextSnoozeAt := Some at0805\<rparr>, dailyAt ''t'' ''08:05'']"
      "[(dailyAt ''d'' ''08:05'')\<lparr>enabled := False\<rparr>]"
      "(dailyAt ''s'' ''07:00'')\<lparr>nextSnoozeAt := Some at0805\<rparr>"
      "[dailyAt ''t'' ''08:05'']"
      "clockAt ''08:05'' 2000"]
  by (simp add: at0805_def clockAt_def dailyAt_def pageOf_def snoozeDue_def currentKey_def
      snoozeReady_def freshTimeMatch_def)

text \<open>
  C3, as stated, fails: the snooze test comes before the comparison with
  \<open>lastTriggeredKey\<close>. A reminder that has already fired under the current key and whose
  snooze is due is triggered again in the same minute.
\<close>

theorem snooze_bypasses_dedup:
  "lastTriggeredKey ((dailyAt ''a'' ''08:05'')\<lparr>lastTriggeredKey := Some ''2024-05-01-08:05'',
                                                nextSnoozeAt := Some at0805\<rparr>)
     = Some (currentKey (clockAt ''08:05'' 2000))
   \<and> fired_in [clockAt ''08:05'' 2000]
        (pageOf [(dailyAt ''a'' ''08:05'')\<lparr>lastTriggeredKey := Some ''2024-05-01-08:05'',
                                             nextSnoozeAt := Some at0805\<rparr>])
      = [((dailyAt ''a'' ''08:05'')\<lparr>lastTriggeredKey := Some ''2024-05-01-08:05'',
                                       nextSnoozeAt := Some at0805\<rparr>, SnoozePath)]"
  by (simp add: example_defs)

text \<open>
  C3, amended. Let a reminder, the only one of its id, carry the key of date \<open>D\<close> and time
  \<open>T\<close> as its \<open>lastTriggeredKey\<close>. Then no run of the callback whose date and time are
  still \<open>D\<close> and \<open>T\<close> triggers it, however many such runs follow one another, as long as its
  snooze is not due at any of them.
\<close>

theorem no_second_trigger:
  assumes "\<forall>ck\<in>set cks. dateKey ck = D \<and> currentTime ck = T"
    and "r0 \<in> set (reminders st)"
    and "lastTriggeredKey r0 = Some (D @ ''-'' @ T)"
    and "\<forall>r\<in>set (reminders st). rem_id r = rem_id r0 \<longrightarrow> r = r0"
    and "\<forall>ck\<in>set cks. \<not> snoozeDue ck r0"
  shows "\<forall>(r, p)\<in>set (fired_in cks st). rem_id r \<noteq> rem_id r0"
  using assms
proof (induction cks arbitrary: st)
  case Nil
  then show ?case by simp
next
  case (Cons ck cks)
  have skip: "check_reminder ck r0 = None"
    using Cons.prems(1,3,5) by (simp add: check_reminder_def currentKey_def)
  show ?case
  proof (cases "scheduler_loop ck (reminders st)")
    case None
    then have same: "tick ck st = st" by (simp add: tick_def)
    have "\<forall>(r, p)\<in>set (fired_in cks st). rem_id r \<noteq> rem_id r0"
    proof (rule Cons.IH)
      show "\<forall>ck\<in>set cks. dateKey ck = D \<and> currentTime ck = T"
        using Cons.prems(1) by simp
      show "r0 \<in> set (reminders st)"
        by (rule Cons.prems(2))
      show "lastTriggeredKey r0 = Some (D @ ''-'' @ T)"
        by (rule Cons.prems(3))
      show "\<forall>r\<in>set (reminders st). rem_id r = rem_id r0 \<longrightarrow> r = r0"
        by (rule Cons.prems(4))
      show "\<forall>ck\<in>set cks. \<not> snoozeDue ck r0"
        using Cons.prems(5) by simp
    qed
    with None same show ?thesis by simp
  next
    case (Some x)
    obtain r p where x: "x = (r, p)" by (cases x)
    from Some x scheduler_loop_Some
    have rin: "r \<in> set (reminders st)" and rp: "check_reminder ck r = Some p"
      by blast+
    have neq: "rem_id r \<noteq> rem_id r0"
    proof
      assume "rem_id r = rem_id r0"
      with rin Cons.prems(4) have "r = r0" by blast
      with rp skip show False by simp
    qed
    have t: "tick ck st = triggerReminder r (currentKey ck) st"
      using Some x by (simp add: tick_def)
    have "\<forall>(r, p)\<in>set (fired_in cks (tick ck st)). rem_id r \<noteq> rem_id r0"
    proof (rule Cons.IH)
      show "\<forall>ck\<in>set cks. dateKey ck = D \<and> currentTime ck = T"
        using Cons.prems(1) by simp
      show "r0 \<in> set (reminders (tick ck st))"
        unfolding t using neq Cons.prems(2) by (rule trigger_keeps_other)
      show "lastTriggeredKey r0 = Some (D @ ''-'' @ T)"
        by (rule Cons.prems(3))
      show "\<forall>x\<in>set (reminders (tick ck st)). rem_id x = rem_id r0 \<longrightarrow> x = r0"
        unfolding t using trigger_same_id [OF _ _ neq] Cons.prems(4) by blast
      show "\<forall>ck\<in>set cks. \<not> snoozeDue ck r0"
        using Cons.prems(5) by simp
    qed
    moreover have "fired_in (ck # cks) st = (r, p) # fired_in cks (tick ck st)"
      using Some x by simp
    ultimately show ?thesis
      using neq by simp
  qed
qed

text \<open>
  Three runs within the minute 08:05: reminder \<open>a\<close> has fired under the key of that minute
  and stays silent; reminder \<open>b\<close> fires once, in the first run.
\<close>

theorem no_second_trigger_witness:
  "list_all (\<lambda>(r, p). rem_id r \<noteq> ''a'')
     (fired_in [clockAt ''08:05'' 2000, clockAt ''08:05'' 7000, clockAt ''08:05'' 12000]
        (pageOf [(dailyAt ''a'' ''08:05'')\<lparr>lastTriggeredKey := Some ''2024-05-01-08:05''\<rparr>,
                 dailyAt ''b'' ''08:05'']))
   \<and> fired_in [clockAt ''08:05'' 2000, clockAt ''08:05'' 7000, clockAt ''08:05'' 12000]
        (pageOf [(dailyAt ''a'' ''08:05'')\<lparr>lastTriggeredKey := Some ''2024-05-01-08:05''\<rparr>,
                 dailyAt ''b'' ''08:05''])
      = [(dailyAt ''b'' ''08:05'', TimePath)]"
proof -
  let ?cks = "[clockAt ''08:05'' 2000, clockAt ''08:05'' 7000, clockAt ''08:05'' 12000]"
  let ?a = "(dailyAt ''a'' ''08:05'')\<lparr>lastTriggeredKey := Some ''2024-05-01-08:05''\<rparr>"
  let ?st = "pageOf [?a, dailyAt ''b'' ''08:05'']"
  have "\<forall>(r, p)\<in>set (fired_in ?cks ?st). rem_id r \<noteq> rem_id ?a"
    by (rule no_second_trigger [of ?cks "''2024-05-01''" "''08:05''"])
       (simp_all add: at0805_def clockAt_def dailyAt_def pageOf_def snoozeDue_def)
  then have "list_all (\<lambda>(r, p). rem_id r \<noteq> ''a'') (fired_in ?cks ?st)"
    by (simp add: list_all_iff dailyAt_def)
  moreover have "fired_in ?cks ?st = [(dailyAt ''b'' ''08:05'', TimePath)]"
    by (simp add: example_defs)
  ultimately show ?thesis by (rule conjI)
qed


section \<open>Properties of the persistence\<close>

lemmas json_defs = goodItem_def badItem_def daysOnDaily_def weeklyNoDays_def snoozeString_def
  repeatOptions_def isRepeatOption_def mounted_def load_effect_def

lemmas typed_defs = mount_def typed_def initial_page_def reminder_of_json_def days_invariant_def


lemma wholesOf_map: "wholesOf (map (\<lambda>d. JNum (of_int d)) ds) = Some ds"
  by (induction ds) auto

lemma repeatOf_string: "repeatOf (Some (JStr (repeat_string m))) = m"
  by (cases m) (auto simp: repeat_string_def)

lemma isRepeatOption_string: "isRepeatOption (repeat_string m)"
  by (cases m) (auto simp: repeat_string_def isRepeatOption_def repeatOptions_def)

lemma reminder_json_ok: "isReminderItem (json_of_reminder r)"
  by (cases "daysOfWeek r"; cases "lastTriggeredKey r"; cases "nextSnoozeAt r")
     (simp_all add: json_of_reminder_def isRepeatOption_string)

lemma reminder_roundtrip: "reminder_of_json (json_of_reminder r) = Some r"
proof -
  have "reminder_of_json (json_of_reminder r) =
          (case (optNumbers (get_prop (json_of_reminder r) ''daysOfWeek''),
                 optString (get_prop (json_of_reminder r) ''lastTriggeredKey''),
                 optNumber (get_prop (json_of_reminder r) ''nextSnoozeAt'')) of
             (Some days, Some key, Some snooze) \<Rightarrow>
               Some \<lparr>rem_id = stringOf (get_prop (json_of_reminder r) ''id''),
                     title = stringOf (get_prop (json_of_reminder r) ''title''),
                     time = stringOf (get_prop (json_of_reminder r) ''time''),
                     enabled = boolOf (get_prop (json_of_reminder r) ''enabled''),
                     repeat = repeatOf (get_prop (json_of_reminder r) ''repeat''),
                     daysOfWeek = days,
                     lastTriggeredKey = key,
                     nextSnoozeAt = snooze\<rparr>
           | _ \<Rightarrow> None)"
    by (simp add: reminder_of_json_def reminder_json_ok)
  also have "\<dots> = Some r"
    by (cases "daysOfWeek r"; cases "lastTriggeredKey r"; cases "nextSnoozeAt r")
       (simp_all add: json_of_reminder_def wholesOf_map repeatOf_string del: repeatOf.simps)
  finally show ?thesis .
qed

lemma typed_saved: "typed (map json_of_reminder rs) = Some rs"
  by (induction rs) (simp_all add: typed_def reminder_roundtrip)

lemma mounted_saved: "mounted (saved st) = map json_of_reminder (reminders st)"
  by (simp add: mounted_def load_effect_def saved_def list_all_iff reminder_json_ok)

lemma mount_saved: "mount (saved st) = Some (initial_page\<lparr>reminders := reminders st\<rparr>)"
  by (simp add: mount_def mounted_saved typed_saved)




text \<open>
  C10, as stated, fails after rehydration: the load checks the five required properties
  only. An array of a daily reminder with \<open>daysOfWeek\<close> and a weekly reminder without it
  passes the check and becomes the collection, and neither element satisfies the
  invariant.
\<close>

theorem rehydrated_without_invariant:
  "isReminderArray (JArr [daysOnDaily, weeklyNoDays])
   \<and> map_option (map repeat \<circ> reminders) (mount (Parsed (JArr [daysOnDaily, weeklyNoDays])))
       = Some [Daily, Weekly]
   \<and> map_option (map daysOfWeek \<circ> reminders) (mount (Parsed (JArr [daysOnDaily, weeklyNoDays])))
       = Some [Some [1, 3], None]
   \<and> map_option (map days_invariant \<circ> reminders)
        (mount (Parsed (JArr [daysOnDaily, weeklyNoDays])))
       = Some [False, False]"
  by (simp add: json_defs typed_defs)

text \<open>
  C10, amended. A reminder made by \<open>addReminder\<close> has \<open>daysOfWeek\<close> defined exactly when it
  is weekly. When every reminder of the collection satisfies this, so does every reminder
  after adding one, after a run of the scheduler, after a trigger, a toggle, a snooze, a
  stop and a delete, and after the collection is saved and loaded again at the next
  mount, which gives back the saved list unchanged. The load does not check
  \<open>daysOfWeek\<close>, so nothing is said of other stored arrays.
\<close>

theorem days_invariant_kept:
  "days_invariant (newReminder uuid f)
   \<and> (all_days_invariant st \<longrightarrow>
        all_days_invariant (addReminder uuid f st) \<and>
        all_days_invariant (tick ck st) \<and>
        all_days_invariant (triggerReminder rem key st) \<and>
        all_days_invariant (toggleReminder i st) \<and>
        all_days_invariant (snoozeActive minutes now st) \<and>
        all_days_invariant (stopActiveAlarm st) \<and>
        all_days_invariant (removeReminder i st) \<and>
        map_option all_days_invariant (mount (saved st)) = Some True)
   \<and> map_option reminders (mount (saved st)) = Some (reminders st)"
proof -
  have new: "days_invariant (newReminder uuid f)"
    by (simp add: days_invariant_def newReminder_def)
  have rt: "map_option reminders (mount (saved st)) = Some (reminders st)"
    by (simp add: mount_saved)
  have kept: "all_days_invariant (addReminder uuid f st) \<and>
        all_days_invariant (tick ck st) \<and>
        all_days_invariant (triggerReminder rem key st) \<and>
        all_days_invariant (toggleReminder i st) \<and>
        all_days_invariant (snoozeActive minutes now st) \<and>
        all_days_invariant (stopActiveAlarm st) \<and>
        all_days_invariant (removeReminder i st) \<and>
        map_option all_days_invariant (mount (saved st)) = Some True"
    if inv: "all_days_invariant st"
  proof -
    have trig: "all_days_invariant (triggerReminder r k st)" for r k
      using inv
      by (auto simp: all_days_invariant_def triggerReminder_def list_all_iff days_invariant_def)
    have "all_days_invariant (addReminder uuid f st)"
      using inv new by (simp add: all_days_invariant_def addReminder_def)
    moreover have "all_days_invariant (tick ck st)"
      using inv trig by (simp add: tick_def split: option.splits prod.splits)
    moreover have "all_days_invariant (toggleReminder i st)"
      using inv
      by (auto simp: all_days_invariant_def toggleReminder_def list_all_iff days_invariant_def)
    moreover have "all_days_invariant (snoozeActive minutes now st)"
      using inv
      by (auto simp: all_days_invariant_def snoozeActive_def stopActiveAlarm_def list_all_iff
          days_invariant_def split: option.splits)
    moreover have "all_days_invariant (stopActiveAlarm st)"
      using inv by (simp add: all_days_invariant_def stopActiveAlarm_def)
    moreover have "all_days_invariant (removeReminder i st)"
      using inv by (simp add: all_days_invariant_def removeReminder_def list_all_iff)
    moreover have "map_option all_days_invariant (mount (saved st)) = Some True"
      using inv by (simp add: mount_saved all_days_invariant_def)
    ultimately show ?thesis
      using trig by blast
  qed
  from new kept rt show ?thesis
    by blast
qed

text \<open>
  A page with a weekly reminder for Monday and Wednesday and a daily one: both satisfy the
  invariant, and so do the reminders after a run of the scheduler that triggers the
  weekly one, and after saving and mounting again.
\<close>

theorem days_invariant_kept_witness:
  "all_days_invariant
     (pageOf [(dailyAt ''w'' ''08:05'')\<lparr>repeat := Weekly, daysOfWeek := Some [1, 3]\<rparr>,
              dailyAt ''b'' ''09:00''])
   \<and> all_days_invariant
       (tick (clockAt ''08:05'' 2000)
          (pageOf [(dailyAt ''w'' ''08:05'')\<lparr>repeat := Weekly, daysOfWeek := Some [1, 3]\<rparr>,
                   dailyAt ''b'' ''09:00'']))
   \<and> map_option all_days_invariant
       (mount (saved
          (pageOf [(dailyAt ''w'' ''08:05'')\<lparr>repeat := Weekly, daysOfWeek := Some [1, 3]\<rparr>,
                   dailyAt ''b'' ''09:00''])))
      = Some True"
proof -
  let ?st = "pageOf [(dailyAt ''w'' ''08:05'')\<lparr>repeat := Weekly, daysOfWeek := Some [1, 3]\<rparr>,
                     dailyAt ''b'' ''09:00'']"
  have h: "all_days_invariant ?st"
    by (simp add: all_days_invariant_def days_invariant_def pageOf_def dailyAt_def)
  from days_invariant_kept [where st = ?st and ck = "clockAt ''08:05'' 2000"] h
  have "all_days_invariant (tick (clockAt ''08:05'' 2000) ?st) \<and>
        map_option all_days_invariant (mount (saved ?st)) = Some True"
    by blast
  with h show ?thesis by (rule conjI)
qed


section \<open>Properties of the air quality index\<close>

lemmas double_defs = fl_def fl_pos_def rne_def Let_def scaleUp.simps scaleDown.simps
  dadd_def dsub_def dmul_def ddiv_def js_round_def

lemma computeSubIndex_None_iff:
  "computeSubIndex C breaks = None \<longleftrightarrow> (\<forall>bp\<in>set breaks. \<not> inInterval C bp)"
  by (induction breaks) (auto simp: inInterval_def)

lemma usAqi_dominant:
  "usAqiFromComponents (Some c) =
     dominant (subIndexOf (pm2_5 c) us_pm25Breaks) (subIndexOf (pm10 c) us_pm10Breaks)"
  by (auto simp: usAqiFromComponents_def pushSubIndex_def subIndexOf_def Let_def
      split: option.splits)

lemma indiaAqi_dominant:
  "indiaAqiFromComponents (Some c) =
     dominant (subIndexOf (pm2_5 c) india_pm25Breaks) (subIndexOf (pm10 c) india_pm10Breaks)"
  by (auto simp: indiaAqiFromComponents_def pushSubIndex_def subIndexOf_def Let_def
      split: option.splits)

lemma us_pm25_gap: "12 < C \<Longrightarrow> C < 12.1 \<Longrightarrow> computeSubIndex C us_pm25Breaks = None"
  by (simp add: us_pm25Breaks_def)

lemma us_pm25_top: "500.4 < C \<Longrightarrow> computeSubIndex C us_pm25Breaks = None"
  by (simp add: us_pm25Breaks_def)

lemma computeSubIndex_separated:
  "separated breaks \<Longrightarrow> bp \<in> set breaks \<Longrightarrow> inInterval C bp \<Longrightarrow>
   computeSubIndex C breaks = Some (interpolate bp C)"
proof (induction breaks)
  case Nil
  then show ?case by simp
next
  case (Cons b bs)
  show ?case
  proof (cases "bp = b")
    case True
    with Cons.prems(3) show ?thesis
      by (simp add: inInterval_def interpolate_def)
  next
    case False
    with Cons.prems have "bp \<in> set bs" and "Chigh b < Clow bp"
      by (auto simp: list_all_iff)
    with Cons show ?thesis
      by (auto simp: inInterval_def)
  qed
qed

lemma separated_tables:
  "separated us_pm25Breaks" "separated us_pm10Breaks"
  "separated india_pm25Breaks" "separated india_pm10Breaks"
  by (simp_all add: us_pm25Breaks_def us_pm10Breaks_def india_pm25Breaks_def india_pm10Breaks_def)

lemma us_pm10_first:
  "0 \<le> C \<Longrightarrow> C \<le> 54 \<Longrightarrow>
   computeSubIndex C us_pm10Breaks =
     Some (interpolate \<lparr>Clow = 0, Chigh = 54, Ilow = 0, Ihigh = 50\<rparr> C)"
  by (simp add: us_pm10Breaks_def interpolate_def)

lemma interpolate_pm10_30:
  "interpolate \<lparr>Clow = 0, Chigh = 54, Ilow = 0, Ihigh = 50\<rparr> 30 = 28"
  by (simp add: interpolate_def double_defs)

lemma interpolate_pm10_1674:
  "interpolate \<lparr>Clow = 0, Chigh = 54, Ilow = 0, Ihigh = 50\<rparr> 16.74 = 15"
  by (simp add: interpolate_def double_defs)

lemma interpolate_pm25_20:
  "interpolate \<lparr>Clow = 12.1, Chigh = 35.4, Ilow = 51, Ihigh = 100\<rparr> 20 = 68"
  by (simp add: interpolate_def double_defs)

lemma interpolate_pm25_12:
  "interpolate \<lparr>Clow = 0.0, Chigh = 12.0, Ilow = 0, Ihigh = 50\<rparr> 12.0 = 50"
  by (simp add: interpolate_def double_defs)

text \<open>
  C7. Under either standard the overall index of a sample is the dominant one of the
  sub-indices of PM2.5 and PM10: their maximum when both exist, the one that exists
  otherwise, and undefined (\<open>None\<close>, which is not the index 0) when neither does or the
  sample has no components. A concentration has no sub-index exactly when it lies in no
  interval of the table, so nothing is clamped; in the US table for PM2.5 this holds of
  every \<open>G\<close> strictly between 12.0 and 12.1 and of every \<open>H\<close> above 500.4.
\<close>

theorem aqi_dominant_pollutant:
  "aqi isIndia None = None
   \<and> aqi False (Some c) =
       dominant (subIndexOf (pm2_5 c) us_pm25Breaks) (subIndexOf (pm10 c) us_pm10Breaks)
   \<and> aqi True (Some c) =
       dominant (subIndexOf (pm2_5 c) india_pm25Breaks) (subIndexOf (pm10 c) india_pm10Breaks)
   \<and> (computeSubIndex C breaks = None \<longleftrightarrow> (\<forall>bp\<in>set breaks. \<not> inInterval C bp))
   \<and> (12 < G \<and> G < 12.1 \<longrightarrow> computeSubIndex G us_pm25Breaks = None)
   \<and> (500.4 < H \<longrightarrow> computeSubIndex H us_pm25Breaks = None)"
proof -
  have "aqi isIndia None = None"
    by (simp add: aqi_def usAqiFromComponents_def indiaAqiFromComponents_def)
  moreover have "aqi False (Some c) =
       dominant (subIndexOf (pm2_5 c) us_pm25Breaks) (subIndexOf (pm10 c) us_pm10Breaks)"
    by (simp add: aqi_def usAqi_dominant)
  moreover have "aqi True (Some c) =
       dominant (subIndexOf (pm2_5 c) india_pm25Breaks) (subIndexOf (pm10 c) india_pm10Breaks)"
    by (simp add: aqi_def indiaAqi_dominant)
  ultimately show ?thesis
    using computeSubIndex_None_iff [of C breaks] us_pm25_gap [of G] us_pm25_top [of H]
    by blast
qed

text \<open>
  A US sample with PM2.5 at 12.05, in the gap, and PM10 at 30: the index is the PM10
  sub-index 28. With PM2.5 at 600 and PM10 at 700 there is no index.
\<close>

theorem aqi_dominant_pollutant_witness:
  "computeSubIndex 12.05 us_pm25Breaks = None
   \<and> computeSubIndex 600 us_pm25Breaks = None
   \<and> aqi False (Some \<lparr>pm2_5 = Some 12.05, pm10 = Some 30\<rparr>) = Some 28
   \<and> aqi False (Some \<lparr>pm2_5 = Some 600, pm10 = Some 700\<rparr>) = None"
proof -
  have gap: "computeSubIndex 12.05 us_pm25Breaks = None"
    using aqi_dominant_pollutant [where G = "12.05"] by simp
  have top: "computeSubIndex 600 us_pm25Breaks = None"
    using aqi_dominant_pollutant [where H = 600] by simp
  have ten: "computeSubIndex 30 us_pm10Breaks = Some 28"
    by (simp add: us_pm10_first interpolate_pm10_30)
  have none: "computeSubIndex 700 us_pm10Breaks = None"
    using aqi_dominant_pollutant [where C = 700 and breaks = us_pm10Breaks]
    by (simp add: us_pm10Breaks_def inInterval_def)
  have "aqi False (Some \<lparr>pm2_5 = Some 12.05, pm10 = Some 30\<rparr>) = Some 28"
    using aqi_dominant_pollutant [where c = "\<lparr>pm2_5 = Some 12.05, pm10 = Some 30\<rparr>"] gap ten
    by (simp add: subIndexOf_def)
  moreover have "aqi False (Some \<lparr>pm2_5 = Some 600, pm10 = Some 700\<rparr>) = None"
    using aqi_dominant_pollutant [where c = "\<lparr>pm2_5 = Some 600, pm10 = Some 700\<rparr>"] top none
    by (simp add: subIndexOf_def)
  ultimately show ?thesis
    using gap top by blast
qed

text \<open>
  C8, as stated, fails when the formula is read in exact arithmetic. PM10 at 16.74 lies in
  the first interval of the US table, from 0 to 54 with the index range 0 to 50. The
  formula gives 15.5 exactly, which rounds to 16; the source computes in doubles, where
  the product is just below 15.5, and returns 15.
\<close>

theorem exact_formula_differs:
  "\<lparr>Clow = 0, Chigh = 54, Ilow = 0, Ihigh = 50\<rparr> \<in> set us_pm10Breaks
   \<and> inInterval 16.74 \<lparr>Clow = 0, Chigh = 54, Ilow = 0, Ihigh = 50\<rparr>
   \<and> computeSubIndex 16.74 us_pm10Breaks = Some 15
   \<and> exactInterpolate \<lparr>Clow = 0, Chigh = 54, Ilow = 0, Ihigh = 50\<rparr> 16.74 = 16"
proof -
  have "computeSubIndex 16.74 us_pm10Breaks
          = Some (interpolate \<lparr>Clow = 0, Chigh = 54, Ilow = 0, Ihigh = 50\<rparr> 16.74)"
    by (rule us_pm10_first) simp_all
  then have "computeSubIndex 16.74 us_pm10Breaks = Some 15"
    by (simp only: interpolate_pm10_1674)
  moreover have "exactInterpolate \<lparr>Clow = 0, Chigh = 54, Ilow = 0, Ihigh = 50\<rparr> 16.74 = 16"
    by (simp add: exactInterpolate_def js_round_def)
  ultimately show ?thesis
    by (simp add: us_pm10Breaks_def inInterval_def)
qed

text \<open>
  C8, amended. For each of the four tables (PM2.5 and PM10, US and India): when the
  concentration \<open>C\<close> lies in an interval of the table, from \<open>Clow\<close> to \<open>Chigh\<close> with the
  index range \<open>Ilow\<close> to \<open>Ihigh\<close>, the sub-index is the rounded value of
  \<open>(Ihigh - Ilow) / (Chigh - Clow) * (C - Clow) + Ilow\<close> as evaluated in the arithmetic of
  doubles, each operation rounded to the nearest double. For PM2.5 at 12.0 under the US
  table it is 50.
\<close>

theorem subindex_interpolates:
  "(breaks \<in> set [us_pm25Breaks, us_pm10Breaks, india_pm25Breaks, india_pm10Breaks] \<and>
    bp \<in> set breaks \<and> Clow bp \<le> C \<and> C \<le> Chigh bp \<longrightarrow>
      computeSubIndex C breaks =
        Some (js_round
               (dadd (dmul (ddiv (dsub (fl (Ihigh bp)) (fl (Ilow bp)))
                                 (dsub (fl (Chigh bp)) (fl (Clow bp))))
                           (dsub (fl C) (fl (Clow bp))))
                     (fl (Ilow bp)))))
   \<and> computeSubIndex 12.0 us_pm25Breaks = Some 50"
proof -
  have "computeSubIndex 12.0 us_pm25Breaks = Some (interpolate \<lparr>Clow = 0.0, Chigh = 12.0, Ilow = 0, Ihigh = 50\<rparr> 12.0)"
    by (simp add: us_pm25Breaks_def interpolate_def)
  then have "computeSubIndex 12.0 us_pm25Breaks = Some 50"
    by (simp only: interpolate_pm25_12)
  moreover have "computeSubIndex C breaks = Some (interpolate bp C)"
    if "breaks \<in> set [us_pm25Breaks, us_pm10Breaks, india_pm25Breaks, india_pm10Breaks]"
      and "bp \<in> set breaks" and "inInterval C bp"
    using that separated_tables computeSubIndex_separated by auto
  ultimately show ?thesis
    by (simp add: interpolate_def inInterval_def)
qed

text \<open>
  PM2.5 at 20 lies in the second interval of the US table, from 12.1 to 35.4 with the
  index range 51 to 100; its sub-index is 68. PM10 at 16.74 has the sub-index 15.
\<close>

theorem subindex_interpolates_witness:
  "computeSubIndex 20 us_pm25Breaks = Some 68
   \<and> computeSubIndex 16.74 us_pm10Breaks = Some 15
   \<and> computeSubIndex 12.0 us_pm25Breaks = Some 50"
proof -
  have m25: "\<lparr>Clow = 12.1, Chigh = 35.4, Ilow = 51, Ihigh = 100\<rparr> \<in> set us_pm25Breaks"
    by (simp add: us_pm25Breaks_def)
  have m10: "\<lparr>Clow = 0, Chigh = 54, Ilow = 0, Ihigh = 50\<rparr> \<in> set us_pm10Breaks"
    by (simp add: us_pm10Breaks_def)
  have "computeSubIndex 20 us_pm25Breaks
          = Some (interpolate \<lparr>Clow = 12.1, Chigh = 35.4, Ilow = 51, Ihigh = 100\<rparr> 20)"
    using subindex_interpolates
            [of us_pm25Breaks "\<lparr>Clow = 12.1, Chigh = 35.4, Ilow = 51, Ihigh = 100\<rparr>" 20] m25
    by (simp add: interpolate_def)
  moreover have "computeSubIndex 16.74 us_pm10Breaks
          = Some (interpolate \<lparr>Clow = 0, Chigh = 54, Ilow = 0, Ihigh = 50\<rparr> 16.74)"
    using subindex_interpolates
            [of us_pm10Breaks "\<lparr>Clow = 0, Chigh = 54, Ilow = 0, Ihigh = 50\<rparr>" "16.74"] m10
    by (simp add: interpolate_def)
  moreover have "computeSubIndex 12.0 us_pm25Breaks = Some 50"
    using subindex_interpolates [of us_pm25Breaks] by simp
  ultimately show ?thesis
    by (simp only: interpolate_pm25_20 interpolate_pm10_1674 simp_thms)
qed


section \<open>Properties of the symptom checker\<close>

lemmas string_defs = trim_def toLowerCase_def lowerChar_def isSpace_def char_of_def bit_Suc_0_iff

lemmas kb_defs = dbGet_def symptomDatabase_def prototypeNames_def keyMatches_def

lemma partialMatch_None:
  "partialMatch l db = None \<longleftrightarrow> (\<forall>(key, data)\<in>set db. \<not> keyMatches l key)"
  by (induction db) (auto split: if_splits)

lemma partialMatch_single:
  "filter (\<lambda>(key, data). keyMatches l key) db = [(k, e)] \<Longrightarrow> partialMatch l db = Some (k, e)"
  by (induction db) (auto split: if_splits)

text \<open>
  C4. Among the substring matches the longest key should win. The loop of
  \<open>getFallbackAnalysis\<close> returns at the first matching key in the order of the knowledge
  base instead. The input \<open>nausea and stomach pain\<close> is no key; the keys it contains are
  \<open>nausea\<close> and, longer, \<open>stomach pain\<close>. The result is the entry of \<open>nausea\<close>; its
  conditions are not those of \<open>stomach pain\<close>, which \<open>extractConditionsFromSymptoms\<close>,
  sorting the matches by length, gives for the same input. Likewise
  \<open>cough and chest pain\<close> gets the entry of \<open>cough\<close>, of moderate severity, where the
  longer key \<open>chest pain\<close> has a severe one.
\<close>

theorem first_key_not_longest:
  "dbGet (trim (toLowerCase ''nausea and stomach pain'')) = Absent
   \<and> map fst (filter (\<lambda>(key, data). keyMatches (trim (toLowerCase ''nausea and stomach pain'')) key)
                symptomDatabase) = [''nausea'', ''stomach pain'']
   \<and> getFallbackAnalysis ''nausea and stomach pain'' = entryAnalysis (Own entry_nausea)
   \<and> possibleConditions (getFallbackAnalysis ''nausea and stomach pain'')
       \<noteq> possibleConditions (entryAnalysis (Own entry_stomach_pain))
   \<and> extractConditionsFromSymptoms ''nausea and stomach pain'' = Some (conditions entry_stomach_pain)
   \<and> map fst (filter (\<lambda>(key, data). keyMatches (trim (toLowerCase ''cough and chest pain'')) key)
                symptomDatabase) = [''cough'', ''chest pain'']
   \<and> getFallbackAnalysis ''cough and chest pain'' = entryAnalysis (Own entry_cough)
   \<and> severity entry_cough = Moderate
   \<and> severity entry_chest_pain = Severe"
  apply (simp add: string_defs kb_defs getFallbackAnalysis_def entryAnalysis_def
      extractConditionsFromSymptoms_def sortFound_def compareFound_def)
  apply (simp add: entry_nausea_def entry_stomach_pain_def entry_cough_def entry_chest_pain_def)
  done

text \<open>
  C5, as stated, fails: a matched entry brings its own severity. \<open>constipation\<close> is a key
  whose entry is mild, while the keyword scan of the input gives moderate;
  \<open>mild headache\<close> contains the key \<open>headache\<close>, whose entry is moderate, while the scan
  gives mild.
\<close>

theorem severity_from_entry:
  "resSeverity (getFallbackAnalysis ''constipation'') = Some Mild
   \<and> assessSeverity (trim (toLowerCase ''constipation'')) = Moderate
   \<and> resSeverity (getFallbackAnalysis ''mild headache'') = Some Moderate
   \<and> assessSeverity (trim (toLowerCase ''mild headache'')) = Mild"
  apply (simp add: string_defs kb_defs getFallbackAnalysis_def entryAnalysis_def assessSeverity_def
      severeKeywords_def mildKeywords_def)
  apply (simp add: entry_constipation_def entry_headache_def)
  done

text \<open>
  C5, amended. Take the lower-cased, trimmed input. When it is no property of the
  knowledge base (neither a key nor a name the object inherits) and no key matches it,
  so that the conditions come from the keyword categories or the generic default, the
  severity of the fallback is the result of the keyword scan of it. When it is a key, the
  severity is the one stored in the entry of that key; when it is no property and exactly
  one key matches it, the severity is the one stored in the entry of that key. Nothing is
  said of an input that several keys match.
\<close>

theorem fallback_severity:
  "(dbGet (trim (toLowerCase s)) = Own d \<longrightarrow>
      resSeverity (getFallbackAnalysis s) = Some (severity d))
   \<and> (dbGet (trim (toLowerCase s)) = Absent \<and>
       filter (\<lambda>(key, data). keyMatches (trim (toLowerCase s)) key) symptomDatabase = [(k, e)] \<longrightarrow>
      resSeverity (getFallbackAnalysis s) = Some (severity e))
   \<and> (dbGet (trim (toLowerCase s)) = Absent \<and>
       (\<forall>(key, data)\<in>set symptomDatabase. \<not> keyMatches (trim (toLowerCase s)) key) \<longrightarrow>
      resSeverity (getFallbackAnalysis s) = Some (assessSeverity (trim (toLowerCase s))))"
proof -
  have none: "partialMatch (trim (toLowerCase s)) symptomDatabase = None"
    if "\<forall>(key, data)\<in>set symptomDatabase. \<not> keyMatches (trim (toLowerCase s)) key"
    using that by (simp only: partialMatch_None)
  have one: "partialMatch (trim (toLowerCase s)) symptomDatabase = Some (k, e)"
    if "filter (\<lambda>(key, data). keyMatches (trim (toLowerCase s)) key) symptomDatabase = [(k, e)]"
    using that by (rule partialMatch_single)
  have "resSeverity (getFallbackAnalysis s) = Some (severity d)"
    if "dbGet (trim (toLowerCase s)) = Own d"
    using that by (simp add: getFallbackAnalysis_def entryAnalysis_def)
  moreover have "resSeverity (getFallbackAnalysis s) = Some (severity e)"
    if "dbGet (trim (toLowerCase s)) = Absent"
      and "filter (\<lambda>(key, data). keyMatches (trim (toLowerCase s)) key) symptomDatabase = [(k, e)]"
    using that(1) one [OF that(2)] by (simp add: getFallbackAnalysis_def entryAnalysis_def)
  moreover have "resSeverity (getFallbackAnalysis s) = Some (assessSeverity (trim (toLowerCase s)))"
    if "dbGet (trim (toLowerCase s)) = Absent"
      and "\<forall>(key, data)\<in>set symptomDatabase. \<not> keyMatches (trim (toLowerCase s)) key"
    using that(1) none [OF that(2)] by (simp add: getFallbackAnalysis_def Let_def)
  ultimately show ?thesis
    by blast
qed

text \<open>
  One input for each case: a key, an input that contains one key, and an input that no
  key matches and that contains the mild keyword \<open>slight\<close>.
\<close>

theorem fallback_severity_witness:
  "resSeverity (getFallbackAnalysis ''Constipation'') = Some Mild
   \<and> resSeverity (getFallbackAnalysis ''mild headache'') = Some Moderate
   \<and> resSeverity (getFallbackAnalysis ''slight xyzzy123'') = Some Mild"
  using fallback_severity [of "''Constipation''" entry_constipation]
    fallback_severity [of "''mild headache''" _ "''headache''" entry_headache]
    fallback_severity [of "''slight xyzzy123''"]
  apply (simp add: string_defs kb_defs assessSeverity_def severeKeywords_def mildKeywords_def)
  apply (simp add: entry_constipation_def entry_headache_def)
  done

text \<open>
  C6. The result of an analysis should hold a list of recommendations that is not empty
  and no undefined field. Two inputs give another result. For the symptoms \<open>fever\<close> and
  the remote text \<open>RECOMMENDATIONS: ,\<close> the parser finds the label, its group holds commas
  only, and the list of recommendations is empty: the parser replaces an empty list of
  conditions by a default and has no such guard for the recommendations. For the symptom
  \<open>constructor\<close>, with no remote text, the lookup in the knowledge base finds the
  inherited property of that name, and all four fields of the result are undefined.
\<close>

theorem empty_recommendations:
  "map_sum id resRecommendations (analyzeSymptoms ''fever'' (Generated ''RECOMMENDATIONS: ,''))
     = Inr (Some [])
   \<and> analyzeSymptoms ''constructor'' NoText
       = Inr \<lparr>possibleConditions = None, resRecommendations = None, resSeverity = None,
              resAdvice = None\<rparr>"
  by (simp add: string_defs kb_defs analyzeSymptoms_def parseAIResponse_def getFallbackAnalysis_def
      entryAnalysis_def matchAt_def captureGroup_def listItems_def extractConditionsFromSymptoms_def
      Let_def)

end
